theory Spec2Isabelle
  imports Main "HOL-Library.Word"
begin

unbundle bit_operations_syntax

section \<open>The DMX serial transport (csrc/dmx.c)\<close>

text \<open>
  \<^verbatim>\<open>dmx.c\<close> holds two implementations of the five operations of
  \<^verbatim>\<open>dmx.h\<close>, selected by \<^verbatim>\<open>#ifdef _WIN32\<close>: one over the POSIX
  terminal interface and one over the Win32 communications interface. Both are
  embedded here, each over a model of the operating system primitives it calls.
  The primitives are not code of the repository: they are modelled after their
  documented behaviour, as state transformers on a record of the operating
  system's state, and every call is appended to a log together with the value
  it returned.

  C values of type \<^verbatim>\<open>int\<close> are HOL integers; the conversions the C code
  performs between integer types of different width are written out.
\<close>

type_synonym byte = "8 word"

text \<open>Conversion to \<^verbatim>\<open>int\<close> (32 bits, two's complement) of a wider integer.\<close>

definition to_int :: "int \<Rightarrow> int" where
  "to_int v = sint (word_of_int v :: 32 word)"

text \<open>Conversion to \<^verbatim>\<open>size_t\<close> (64 bits, unsigned).\<close>

definition to_size_t :: "int \<Rightarrow> nat" where
  "to_size_t v = unat (word_of_int v :: 64 word)"

text \<open>Conversion to \<^verbatim>\<open>DWORD\<close> (32 bits, unsigned).\<close>

definition to_DWORD :: "int \<Rightarrow> nat" where
  "to_DWORD v = unat (word_of_int v :: 32 word)"

definition INT_MAX :: int where
  "INT_MAX = 2147483647"

definition INT_MIN :: int where
  "INT_MIN = - 2147483648"

text \<open>The electrical state of the serial line, and the minimum widths of DMX512.\<close>

datatype level = MARK | BREAK

definition DMX_MIN_BREAK_US :: nat where
  "DMX_MIN_BREAK_US = 88"

definition DMX_MIN_MAB_US :: nat where
  "DMX_MIN_MAB_US = 8"

text \<open>
  A line history is the list of level changes, each with the time (in
  microseconds, a lower bound) at which it happened. \<open>break_then_mab es now\<close>
  says that the changes \<open>es\<close> made by one call that returned at time \<open>now\<close>
  are a BREAK of at least 88 microseconds followed by a MARK that was held at
  least 8 microseconds when the call returned.
\<close>

fun break_then_mab :: "(nat \<times> level) list \<Rightarrow> nat \<Rightarrow> bool" where
  "break_then_mab [(t1, BREAK), (t2, MARK)] now =
     (t1 + DMX_MIN_BREAK_US \<le> t2 \<and> t2 + DMX_MIN_MAB_US \<le> now)"
| "break_then_mab es now = False"

text \<open>How long the line had been at MARK when the call returned.\<close>

fun mark_held :: "(nat \<times> level) list \<Rightarrow> nat \<Rightarrow> nat" where
  "mark_held [] now = 0"
| "mark_held es now = (case last es of (t, MARK) \<Rightarrow> now - t | (t, BREAK) \<Rightarrow> 0)"

section \<open>The POSIX build\<close>

subsection \<open>Constants of the system headers\<close>

text \<open>
  The values are those of Linux (\<^verbatim>\<open>fcntl.h\<close>, \<^verbatim>\<open>termios.h\<close>). A line speed
  is modelled by its rate in bits per second, so \<^verbatim>\<open>B250000\<close> is 250000.
\<close>

definition O_RDWR :: "32 word" where "O_RDWR = 0x2"
definition O_NOCTTY :: "32 word" where "O_NOCTTY = 0x100"
definition O_NONBLOCK :: "32 word" where "O_NONBLOCK = 0x800"

definition CSIZE :: "32 word" where "CSIZE = 0x30"
definition CS5 :: "32 word" where "CS5 = 0x0"
definition CS6 :: "32 word" where "CS6 = 0x10"
definition CS7 :: "32 word" where "CS7 = 0x20"
definition CS8 :: "32 word" where "CS8 = 0x30"
definition CSTOPB :: "32 word" where "CSTOPB = 0x40"
definition PARENB :: "32 word" where "PARENB = 0x100"
definition TCSANOW :: int where "TCSANOW = 0"
definition B250000 :: nat where "B250000 = 250000"

datatype errno = ENOENT | EBADF | ENOTTY | EINVAL | EAGAIN | EIO | EFAULT

subsection \<open>State of the operating system\<close>

text \<open>
  \<^verbatim>\<open>struct termios\<close>, with the fields the transport touches: the control
  flags and the two speeds.
\<close>

record termios =
  c_cflag :: "32 word"
  c_ispeed :: nat
  c_ospeed :: nat

text \<open>
  A device node and, once opened, its open file description:
  \<^item> \<open>s_is_tty\<close>: the device is a terminal (the \<^verbatim>\<open>tc*\<close> calls fail with
    \<^verbatim>\<open>ENOTTY\<close> otherwise);
  \<^item> \<open>s_rejects\<close>: the driver refuses new line settings (\<^verbatim>\<open>EINVAL\<close>);
  \<^item> \<open>s_attr\<close>: the line settings in force;
  \<^item> \<open>s_canonical\<close>: the terminal is in canonical mode (\<^verbatim>\<open>ICANON\<close> in the
    local modes, which the transport reads and writes back unchanged): input is
    handed to \<^verbatim>\<open>read\<close> in whole lines only;
  \<^item> \<open>s_nonblock\<close>: \<^verbatim>\<open>O_NONBLOCK\<close> is set on the description;
  \<^item> \<open>s_fault\<close>: transfers fail with \<^verbatim>\<open>EIO\<close>;
  \<^item> \<open>s_rx\<close>: bytes received and not yet read;
  \<^item> \<open>s_room\<close>: bytes the driver's transmit buffer can take now;
  \<^item> \<open>s_sent\<close>: bytes the driver has taken for transmission so far;
  \<^item> \<open>s_peer\<close>: the descriptor whose receive queue is wired to this line's
    transmitter (a loopback), if any;
  \<^item> \<open>s_line\<close>: the history of the line's level.
\<close>

record serial =
  s_is_tty :: bool
  s_rejects :: bool
  s_attr :: termios
  s_canonical :: bool
  s_nonblock :: bool
  s_fault :: bool
  s_rx :: "byte list"
  s_room :: nat
  s_sent :: "byte list"
  s_peer :: "int option"
  s_line :: "(nat \<times> level) list"

datatype call =
    Call_open string "32 word"
  | Call_tcgetattr int
  | Call_tcsetattr int int termios
  | Call_tcsendbreak int int
  | Call_usleep nat
  | Call_write int "byte list" nat
  | Call_read int nat
  | Call_close int

text \<open>
  The system: the device nodes by path, the descriptor table, the next
  descriptor the kernel hands out, the clock (microseconds), \<^verbatim>\<open>errno\<close>,
  the indeterminate contents an uninitialised \<^verbatim>\<open>struct termios\<close> on the
  stack has, and the log of calls with their return values.
\<close>

record posix =
  nodes :: "string \<Rightarrow> serial option"
  fds :: "int \<Rightarrow> serial option"
  next_fd :: nat
  clock :: nat
  errno :: errno
  stack_termios :: termios
  syslog :: "(call \<times> int) list"

subsection \<open>The primitives\<close>

definition sys_ret :: "call \<Rightarrow> int \<Rightarrow> posix \<Rightarrow> int \<times> posix" where
  "sys_ret c r w = (r, w\<lparr>syslog := syslog w @ [(c, r)]\<rparr>)"

definition sys_fail :: "call \<Rightarrow> errno \<Rightarrow> posix \<Rightarrow> int \<times> posix" where
  "sys_fail c e w = sys_ret c (- 1) (w\<lparr>errno := e\<rparr>)"

text \<open>\<^verbatim>\<open>open(2)\<close>: a new descriptor for the node, or -1.\<close>

definition sys_open :: "string \<Rightarrow> 32 word \<Rightarrow> posix \<Rightarrow> int \<times> posix" where
  "sys_open path oflag w =
     (case nodes w path of
        None \<Rightarrow> sys_fail (Call_open path oflag) ENOENT w
      | Some d \<Rightarrow>
          (let fd = int (next_fd w) in
           sys_ret (Call_open path oflag) fd
             (w\<lparr>fds := (fds w)(fd \<mapsto> d\<lparr>s_nonblock := (oflag AND O_NONBLOCK \<noteq> 0)\<rparr>),
                next_fd := Suc (next_fd w)\<rparr>)))"

text \<open>\<^verbatim>\<open>tcgetattr(3)\<close>: fills the structure on success, leaves it alone on failure.\<close>

definition sys_tcgetattr :: "int \<Rightarrow> termios \<Rightarrow> posix \<Rightarrow> (int \<times> posix) \<times> termios" where
  "sys_tcgetattr fd t w =
     (case fds w fd of
        None \<Rightarrow> (sys_fail (Call_tcgetattr fd) EBADF w, t)
      | Some d \<Rightarrow>
          if s_is_tty d then (sys_ret (Call_tcgetattr fd) 0 w, s_attr d)
          else (sys_fail (Call_tcgetattr fd) ENOTTY w, t))"

definition cfsetispeed :: "termios \<Rightarrow> nat \<Rightarrow> termios" where
  "cfsetispeed t speed = t\<lparr>c_ispeed := speed\<rparr>"

definition cfsetospeed :: "termios \<Rightarrow> nat \<Rightarrow> termios" where
  "cfsetospeed t speed = t\<lparr>c_ospeed := speed\<rparr>"

text \<open>\<^verbatim>\<open>tcsetattr(3)\<close>: puts the settings in force, or fails and changes nothing.\<close>

definition sys_tcsetattr :: "int \<Rightarrow> int \<Rightarrow> termios \<Rightarrow> posix \<Rightarrow> int \<times> posix" where
  "sys_tcsetattr fd act t w =
     (case fds w fd of
        None \<Rightarrow> sys_fail (Call_tcsetattr fd act t) EBADF w
      | Some d \<Rightarrow>
          if \<not> s_is_tty d then sys_fail (Call_tcsetattr fd act t) ENOTTY w
          else if s_rejects d then sys_fail (Call_tcsetattr fd act t) EINVAL w
          else sys_ret (Call_tcsetattr fd act t) 0
                 (w\<lparr>fds := (fds w)(fd \<mapsto> d\<lparr>s_attr := t\<rparr>)\<rparr>))"

text \<open>
  \<^verbatim>\<open>tcsendbreak(3)\<close>: with duration 0 the line is held at BREAK for at least
  0.25 seconds and then returned to MARK; for another duration the period is
  implementation-defined, and its lower bound 0 is taken.
\<close>

definition break_usec :: "int \<Rightarrow> nat" where
  "break_usec duration = (if duration = 0 then 250000 else 0)"

definition sys_tcsendbreak :: "int \<Rightarrow> int \<Rightarrow> posix \<Rightarrow> int \<times> posix" where
  "sys_tcsendbreak fd duration w =
     (case fds w fd of
        None \<Rightarrow> sys_fail (Call_tcsendbreak fd duration) EBADF w
      | Some d \<Rightarrow>
          if \<not> s_is_tty d then sys_fail (Call_tcsendbreak fd duration) ENOTTY w
          else
            (let t1 = clock w; t2 = t1 + break_usec duration in
             sys_ret (Call_tcsendbreak fd duration) 0
               (w\<lparr>fds := (fds w)(fd \<mapsto> d\<lparr>s_line := s_line d @ [(t1, BREAK), (t2, MARK)]\<rparr>),
                  clock := t2\<rparr>)))"

text \<open>\<^verbatim>\<open>usleep(3)\<close>: at least the given number of microseconds pass.\<close>

definition sys_usleep :: "nat \<Rightarrow> posix \<Rightarrow> int \<times> posix" where
  "sys_usleep usec w = sys_ret (Call_usleep usec) 0 (w\<lparr>clock := clock w + usec\<rparr>)"

text \<open>
  The bytes a transmitter sends arrive in the receive queue of its peer. The
  line itself is taken as ideal: it delivers at once and changes no byte. Of
  the processing a terminal applies, the model has the one that decides
  whether received bytes can be read at all, the line assembly of canonical
  mode (\<open>pending\<close> below); echo, character mapping and flow control are left
  out.
\<close>

definition deliver :: "int option \<Rightarrow> byte list \<Rightarrow> (int \<Rightarrow> serial option) \<Rightarrow> (int \<Rightarrow> serial option)" where
  "deliver peer bs tab =
     (case peer of
        None \<Rightarrow> tab
      | Some p \<Rightarrow>
          (case tab p of
             None \<Rightarrow> tab
           | Some q \<Rightarrow> tab(p \<mapsto> q\<lparr>s_rx := s_rx q @ bs\<rparr>)))"

text \<open>
  \<^verbatim>\<open>write(2)\<close>: the driver takes as many of the \<open>count\<close> bytes as it has room
  for. With no room at all the call fails with \<^verbatim>\<open>EAGAIN\<close> on a non-blocking
  descriptor and does not return on a blocking one (\<open>None\<close>).
\<close>

definition sys_write :: "int \<Rightarrow> byte list \<Rightarrow> nat \<Rightarrow> posix \<Rightarrow> (int \<times> posix) option" where
  "sys_write fd data count w =
     (case fds w fd of
        None \<Rightarrow> Some (sys_fail (Call_write fd data count) EBADF w)
      | Some d \<Rightarrow>
          if s_fault d then Some (sys_fail (Call_write fd data count) EIO w)
          else if length data < count then Some (sys_fail (Call_write fd data count) EFAULT w)
          else if count = 0 then Some (sys_ret (Call_write fd data count) 0 w)
          else if s_room d = 0 then
            (if s_nonblock d then Some (sys_fail (Call_write fd data count) EAGAIN w) else None)
          else
            (let k = min count (s_room d); bs = take k data in
             Some (sys_ret (Call_write fd data count) (int k)
               (w\<lparr>fds := deliver (s_peer d) bs
                    ((fds w)(fd \<mapsto> d\<lparr>s_room := s_room d - k, s_sent := s_sent d @ bs\<rparr>))\<rparr>))))"

text \<open>
  The received bytes a \<^verbatim>\<open>read\<close> can take: all of them in non-canonical mode;
  in canonical mode the first line, up to and with its newline, and nothing
  while no newline has been received.
\<close>

definition NL :: byte where
  "NL = 0x0A"

definition pending :: "serial \<Rightarrow> byte list" where
  "pending d =
     (if s_canonical d
      then (if NL \<in> set (s_rx d) then takeWhile (\<lambda>b. b \<noteq> NL) (s_rx d) @ [NL] else [])
      else s_rx d)"

text \<open>
  \<^verbatim>\<open>read(2)\<close>: up to \<open>count\<close> pending bytes are stored at the start of the
  buffer. With nothing pending the call fails with \<^verbatim>\<open>EAGAIN\<close> on a
  non-blocking descriptor and does not return on a blocking one (\<open>None\<close>).
\<close>

definition sys_read :: "int \<Rightarrow> byte list \<Rightarrow> nat \<Rightarrow> posix \<Rightarrow> ((int \<times> posix) \<times> byte list) option" where
  "sys_read fd buffer count w =
     (case fds w fd of
        None \<Rightarrow> Some (sys_fail (Call_read fd count) EBADF w, buffer)
      | Some d \<Rightarrow>
          if s_fault d then Some (sys_fail (Call_read fd count) EIO w, buffer)
          else if length buffer < count then Some (sys_fail (Call_read fd count) EFAULT w, buffer)
          else if count = 0 then Some (sys_ret (Call_read fd count) 0 w, buffer)
          else if pending d = [] then
            (if s_nonblock d then Some (sys_fail (Call_read fd count) EAGAIN w, buffer) else None)
          else
            (let k = min count (length (pending d)) in
             Some (sys_ret (Call_read fd count) (int k)
                     (w\<lparr>fds := (fds w)(fd \<mapsto> d\<lparr>s_rx := drop k (s_rx d)\<rparr>)\<rparr>),
                   take k (s_rx d) @ drop k buffer)))"

text \<open>\<^verbatim>\<open>close(2)\<close>: releases the descriptor, or fails with \<^verbatim>\<open>EBADF\<close>.\<close>

definition sys_close :: "int \<Rightarrow> posix \<Rightarrow> int \<times> posix" where
  "sys_close fd w =
     (case fds w fd of
        None \<Rightarrow> sys_fail (Call_close fd) EBADF w
      | Some d \<Rightarrow> sys_ret (Call_close fd) 0 (w\<lparr>fds := (fds w)(fd := None)\<rparr>))"

subsection \<open>The transport (dmx.c, lines 86 to 121)\<close>

text \<open>
  \<^verbatim>\<open>dmx_open\<close>: the results of \<^verbatim>\<open>tcgetattr\<close> and \<^verbatim>\<open>tcsetattr\<close> are not
  looked at, and \<^verbatim>\<open>options\<close> is not initialised before \<^verbatim>\<open>tcgetattr\<close>.
\<close>

definition dmx_open_posix :: "string \<Rightarrow> posix \<Rightarrow> int \<times> posix" where
  "dmx_open_posix port w =
     (let (fd, w1) = sys_open port (O_RDWR OR O_NOCTTY OR O_NONBLOCK) w in
      if fd < 0 then (- 1, w1)
      else
        (let ((r1, w2), options) = sys_tcgetattr fd (stack_termios w1) w1;
             options = cfsetispeed options B250000;
             options = cfsetospeed options B250000;
             options = options\<lparr>c_cflag := c_cflag options OR (CS8 OR CSTOPB)\<rparr>;
             (r2, w3) = sys_tcsetattr fd TCSANOW options w2
         in (fd, w3)))"

definition dmx_send_break_posix :: "int \<Rightarrow> posix \<Rightarrow> posix" where
  "dmx_send_break_posix fd w =
     (let (r1, w1) = sys_tcsendbreak fd 0 w;
          (r2, w2) = sys_usleep 12 w1
      in w2)"

definition dmx_write_posix :: "int \<Rightarrow> byte list \<Rightarrow> int \<Rightarrow> posix \<Rightarrow> (int \<times> posix) option" where
  "dmx_write_posix fd data len w =
     (case sys_write fd data (to_size_t len) w of
        None \<Rightarrow> None
      | Some (r, w1) \<Rightarrow> Some (to_int r, w1))"

definition dmx_read_frame_posix :: "int \<Rightarrow> byte list \<Rightarrow> int \<Rightarrow> posix \<Rightarrow> ((int \<times> posix) \<times> byte list) option" where
  "dmx_read_frame_posix fd buffer max_len w =
     (case sys_read fd buffer (to_size_t max_len) w of
        None \<Rightarrow> None
      | Some ((r, w1), buffer1) \<Rightarrow>
          (let n = to_int r in
           if n < 0 then Some ((- 1, w1), buffer1) else Some ((n, w1), buffer1)))"

definition dmx_close_posix :: "int \<Rightarrow> posix \<Rightarrow> posix" where
  "dmx_close_posix fd w = (let (r, w1) = sys_close fd w in w1)"

section \<open>The Win32 build\<close>

subsection \<open>Constants of the system headers\<close>

text \<open>
  A \<^verbatim>\<open>HANDLE\<close> is a pointer-sized value, 64 bits on the targets of today;
  \<^verbatim>\<open>intptr_t\<close> is the signed integer of that width.
\<close>

type_synonym HANDLE = "64 word"

definition INVALID_HANDLE_VALUE :: HANDLE where
  "INVALID_HANDLE_VALUE = - 1"

definition GENERIC_READ :: "32 word" where "GENERIC_READ = 0x80000000"
definition GENERIC_WRITE :: "32 word" where "GENERIC_WRITE = 0x40000000"
definition OPEN_EXISTING :: nat where "OPEN_EXISTING = 3"
definition NOPARITY :: nat where "NOPARITY = 0"
definition TWOSTOPBITS :: nat where "TWOSTOPBITS = 2"
definition sizeof_DCB :: nat where "sizeof_DCB = 28"

text \<open>\<^verbatim>\<open>(HANDLE)(intptr_t)fd\<close>: the \<^verbatim>\<open>int\<close> sign-extended to pointer width.\<close>

definition handle_of_fd :: "int \<Rightarrow> HANDLE" where
  "handle_of_fd fd = word_of_int fd"

text \<open>\<^verbatim>\<open>(int)(intptr_t)handle\<close>: the low 32 bits of the handle, two's complement.\<close>

definition fd_of_handle :: "HANDLE \<Rightarrow> int" where
  "fd_of_handle h = to_int (sint h)"

subsection \<open>State of the operating system\<close>

text \<open>\<^verbatim>\<open>DCB\<close>, with the members the transport touches.\<close>

record DCB =
  DCBlength :: nat
  BaudRate :: nat
  ByteSize :: nat
  Parity :: nat
  StopBits :: nat

text \<open>
  A communications port and, once opened, the object behind its handle:
  \<^item> \<open>m_is_comm\<close>: the device is a communications device (\<^verbatim>\<open>GetCommState\<close>,
    \<^verbatim>\<open>SetCommState\<close> and the break functions fail otherwise);
  \<^item> \<open>m_rejects\<close>: the driver refuses a new configuration;
  \<^item> \<open>m_dcb\<close>: the configuration in force;
  \<^item> \<open>m_timeouts\<close>: time-outs are in force under which a transfer returns
    with what was done so far; without them it waits until it is complete;
  \<^item> the other fields as in the POSIX build.
\<close>

record comm =
  m_is_comm :: bool
  m_rejects :: bool
  m_dcb :: DCB
  m_timeouts :: bool
  m_fault :: bool
  m_rx :: "byte list"
  m_room :: nat
  m_sent :: "byte list"
  m_peer :: "HANDLE option"
  m_line :: "(nat \<times> level) list"

datatype wcall =
    Call_CreateFileA string "32 word" nat nat nat
  | Call_GetCommState HANDLE
  | Call_SetCommState HANDLE DCB
  | Call_SetCommBreak HANDLE
  | Call_ClearCommBreak HANDLE
  | Call_Sleep nat
  | Call_WriteFile HANDLE "byte list" nat
  | Call_ReadFile HANDLE nat
  | Call_CloseHandle HANDLE

text \<open>
  A Win32 function returns a \<^verbatim>\<open>BOOL\<close>, but for \<^verbatim>\<open>CreateFileA\<close>, which
  returns a handle, and \<^verbatim>\<open>Sleep\<close>, which returns nothing.
\<close>

datatype wret = Ret_BOOL bool | Ret_HANDLE HANDLE | Ret_void

record win32 =
  ports :: "string \<Rightarrow> comm option"
  handles :: "HANDLE \<Rightarrow> comm option"
  next_handle :: HANDLE
  ticks :: nat
  winlog :: "(wcall \<times> wret) list"

subsection \<open>The primitives\<close>

definition win_log :: "wcall \<Rightarrow> wret \<Rightarrow> win32 \<Rightarrow> win32" where
  "win_log c r w = w\<lparr>winlog := winlog w @ [(c, r)]\<rparr>"

definition win_BOOL :: "wcall \<Rightarrow> bool \<Rightarrow> win32 \<Rightarrow> bool \<times> win32" where
  "win_BOOL c b w = (b, win_log c (Ret_BOOL b) w)"

text \<open>\<^verbatim>\<open>CreateFileA\<close>: a new handle for the port, or \<^verbatim>\<open>INVALID_HANDLE_VALUE\<close>.\<close>

definition CreateFileA :: "string \<Rightarrow> 32 word \<Rightarrow> nat \<Rightarrow> nat \<Rightarrow> nat \<Rightarrow> win32 \<Rightarrow> HANDLE \<times> win32" where
  "CreateFileA name access share creation flags w =
     (let c = Call_CreateFileA name access share creation flags in
      case ports w name of
        None \<Rightarrow> (INVALID_HANDLE_VALUE, win_log c (Ret_HANDLE INVALID_HANDLE_VALUE) w)
      | Some d \<Rightarrow>
          (let h = next_handle w in
           (h, win_log c (Ret_HANDLE h)
                 (w\<lparr>handles := (handles w)(h \<mapsto> d), next_handle := h + 4\<rparr>))))"

text \<open>\<^verbatim>\<open>GetCommState\<close>: fills the structure on success, leaves it alone on failure.\<close>

definition GetCommState :: "HANDLE \<Rightarrow> DCB \<Rightarrow> win32 \<Rightarrow> (bool \<times> win32) \<times> DCB" where
  "GetCommState h dcb w =
     (case handles w h of
        None \<Rightarrow> (win_BOOL (Call_GetCommState h) False w, dcb)
      | Some d \<Rightarrow>
          if m_is_comm d then (win_BOOL (Call_GetCommState h) True w, m_dcb d)
          else (win_BOOL (Call_GetCommState h) False w, dcb))"

text \<open>\<^verbatim>\<open>SetCommState\<close>: puts the configuration in force, or fails and changes nothing.\<close>

definition SetCommState :: "HANDLE \<Rightarrow> DCB \<Rightarrow> win32 \<Rightarrow> bool \<times> win32" where
  "SetCommState h dcb w =
     (case handles w h of
        None \<Rightarrow> win_BOOL (Call_SetCommState h dcb) False w
      | Some d \<Rightarrow>
          if \<not> m_is_comm d \<or> m_rejects d then win_BOOL (Call_SetCommState h dcb) False w
          else win_BOOL (Call_SetCommState h dcb) True
                 (w\<lparr>handles := (handles w)(h \<mapsto> d\<lparr>m_dcb := dcb\<rparr>)\<rparr>))"

text \<open>\<^verbatim>\<open>SetCommBreak\<close> and \<^verbatim>\<open>ClearCommBreak\<close>: the line goes to BREAK, to MARK.\<close>

definition set_level :: "wcall \<Rightarrow> HANDLE \<Rightarrow> level \<Rightarrow> win32 \<Rightarrow> bool \<times> win32" where
  "set_level c h l w =
     (case handles w h of
        None \<Rightarrow> win_BOOL c False w
      | Some d \<Rightarrow>
          if \<not> m_is_comm d then win_BOOL c False w
          else win_BOOL c True
                 (w\<lparr>handles := (handles w)(h \<mapsto> d\<lparr>m_line := m_line d @ [(ticks w, l)]\<rparr>)\<rparr>))"

definition SetCommBreak :: "HANDLE \<Rightarrow> win32 \<Rightarrow> bool \<times> win32" where
  "SetCommBreak h w = set_level (Call_SetCommBreak h) h BREAK w"

definition ClearCommBreak :: "HANDLE \<Rightarrow> win32 \<Rightarrow> bool \<times> win32" where
  "ClearCommBreak h w = set_level (Call_ClearCommBreak h) h MARK w"

text \<open>\<^verbatim>\<open>Sleep\<close>: at least the given number of milliseconds pass.\<close>

definition Sleep :: "nat \<Rightarrow> win32 \<Rightarrow> win32" where
  "Sleep ms w = win_log (Call_Sleep ms) Ret_void (w\<lparr>ticks := ticks w + 1000 * ms\<rparr>)"

definition wdeliver :: "HANDLE option \<Rightarrow> byte list \<Rightarrow> (HANDLE \<Rightarrow> comm option) \<Rightarrow> (HANDLE \<Rightarrow> comm option)" where
  "wdeliver peer bs tab =
     (case peer of
        None \<Rightarrow> tab
      | Some p \<Rightarrow>
          (case tab p of
             None \<Rightarrow> tab
           | Some q \<Rightarrow> tab(p \<mapsto> q\<lparr>m_rx := m_rx q @ bs\<rparr>)))"

text \<open>
  \<^verbatim>\<open>WriteFile\<close> (synchronous): the result is the \<^verbatim>\<open>BOOL\<close> and the number
  of bytes written. The driver takes the bytes it has room for; when that is
  not all of them the call returns under time-outs and does not return
  without them (\<open>None\<close>).
\<close>

definition WriteFile :: "HANDLE \<Rightarrow> byte list \<Rightarrow> nat \<Rightarrow> win32 \<Rightarrow> ((bool \<times> win32) \<times> nat) option" where
  "WriteFile h data count w =
     (let c = Call_WriteFile h data count in
      case handles w h of
        None \<Rightarrow> Some (win_BOOL c False w, 0)
      | Some d \<Rightarrow>
          if m_fault d \<or> length data < count then Some (win_BOOL c False w, 0)
          else if m_room d < count \<and> \<not> m_timeouts d then None
          else
            (let k = min count (m_room d); bs = take k data in
             Some (win_BOOL c True
                     (w\<lparr>handles := wdeliver (m_peer d) bs
                          ((handles w)(h \<mapsto> d\<lparr>m_room := m_room d - k, m_sent := m_sent d @ bs\<rparr>))\<rparr>),
                   k)))"

text \<open>
  \<^verbatim>\<open>ReadFile\<close> (synchronous): the result is the \<^verbatim>\<open>BOOL\<close>, the number of
  bytes read and the buffer. With fewer than \<open>count\<close> bytes pending the call
  returns what there is (possibly nothing) under time-outs and does not return
  without them (\<open>None\<close>).
\<close>

definition ReadFile :: "HANDLE \<Rightarrow> byte list \<Rightarrow> nat \<Rightarrow> win32 \<Rightarrow> ((bool \<times> win32) \<times> nat \<times> byte list) option" where
  "ReadFile h buffer count w =
     (let c = Call_ReadFile h count in
      case handles w h of
        None \<Rightarrow> Some (win_BOOL c False w, 0, buffer)
      | Some d \<Rightarrow>
          if m_fault d \<or> length buffer < count then Some (win_BOOL c False w, 0, buffer)
          else if length (m_rx d) < count \<and> \<not> m_timeouts d then None
          else
            (let k = min count (length (m_rx d)) in
             Some (win_BOOL c True
                     (w\<lparr>handles := (handles w)(h \<mapsto> d\<lparr>m_rx := drop k (m_rx d)\<rparr>)\<rparr>),
                   k, take k (m_rx d) @ drop k buffer)))"

text \<open>\<^verbatim>\<open>CloseHandle\<close>: releases the handle, or fails.\<close>

definition CloseHandle :: "HANDLE \<Rightarrow> win32 \<Rightarrow> bool \<times> win32" where
  "CloseHandle h w =
     (case handles w h of
        None \<Rightarrow> win_BOOL (Call_CloseHandle h) False w
      | Some d \<Rightarrow> win_BOOL (Call_CloseHandle h) True (w\<lparr>handles := (handles w)(h := None)\<rparr>))"

subsection \<open>The transport (dmx.c, lines 6 to 77)\<close>

definition dmx_open_win32 :: "string \<Rightarrow> win32 \<Rightarrow> int \<times> win32" where
  "dmx_open_win32 port w =
     (let (handle, w1) = CreateFileA port (GENERIC_READ OR GENERIC_WRITE) 0 OPEN_EXISTING 0 w in
      if handle = INVALID_HANDLE_VALUE then (- 1, w1)
      else
        (let dcb = \<lparr>DCBlength = 0, BaudRate = 0, ByteSize = 0, Parity = 0, StopBits = 0\<rparr>;
             dcb = dcb\<lparr>DCBlength := sizeof_DCB\<rparr>;
             ((ok1, w2), dcb) = GetCommState handle dcb w1
         in
         if \<not> ok1 then (let (r, w3) = CloseHandle handle w2 in (- 1, w3))
         else
           (let dcb = dcb\<lparr>BaudRate := 250000\<rparr>;
                dcb = dcb\<lparr>ByteSize := 8\<rparr>;
                dcb = dcb\<lparr>Parity := NOPARITY\<rparr>;
                dcb = dcb\<lparr>StopBits := TWOSTOPBITS\<rparr>;
                (ok2, w3) = SetCommState handle dcb w2
            in
            if \<not> ok2 then (let (r, w4) = CloseHandle handle w3 in (- 1, w4))
            else (fd_of_handle handle, w3))))"

definition dmx_send_break_win32 :: "int \<Rightarrow> win32 \<Rightarrow> win32" where
  "dmx_send_break_win32 fd w =
     (let handle = handle_of_fd fd;
          (r1, w1) = SetCommBreak handle w;
          w2 = Sleep 1 w1;
          (r2, w3) = ClearCommBreak handle w2
      in w3)"

definition dmx_read_frame_win32 :: "int \<Rightarrow> byte list \<Rightarrow> int \<Rightarrow> win32 \<Rightarrow> ((int \<times> win32) \<times> byte list) option" where
  "dmx_read_frame_win32 fd buffer len w =
     (let handle = handle_of_fd fd in
      case ReadFile handle buffer (to_DWORD len) w of
        None \<Rightarrow> None
      | Some ((ok, w1), bytes_read, buffer1) \<Rightarrow>
          if \<not> ok then Some ((- 1, w1), buffer1)
          else Some ((to_int (int bytes_read), w1), buffer1))"

definition dmx_write_win32 :: "int \<Rightarrow> byte list \<Rightarrow> int \<Rightarrow> win32 \<Rightarrow> (int \<times> win32) option" where
  "dmx_write_win32 fd data len w =
     (let handle = handle_of_fd fd in
      case WriteFile handle data (to_DWORD len) w of
        None \<Rightarrow> None
      | Some ((ok, w1), bytes_written) \<Rightarrow>
          if \<not> ok then Some (- 1, w1)
          else Some (to_int (int bytes_written), w1))"

definition dmx_close_win32 :: "int \<Rightarrow> win32 \<Rightarrow> win32" where
  "dmx_close_win32 fd w =
     (let handle = handle_of_fd fd;
          (r, w1) = CloseHandle handle w
      in w1)"

section \<open>Fixtures\<close>

text \<open>
  A POSIX system with a serial adapter left at 9600 baud, 7 data bits, even
  parity and one stop bit by its last user, in canonical mode as terminals are
  by default, and a node that is not a terminal. Descriptors 0 to 2 are taken.
\<close>

definition tty_7E1 :: serial where
  "tty_7E1 =
     \<lparr>s_is_tty = True, s_rejects = False,
      s_attr = \<lparr>c_cflag = CS7 OR PARENB, c_ispeed = 9600, c_ospeed = 9600\<rparr>,
      s_canonical = True, s_nonblock = False, s_fault = False, s_rx = [], s_room = 4096, s_sent = [],
      s_peer = None, s_line = []\<rparr>"

definition boot :: posix where
  "boot =
     \<lparr>nodes = [''/dev/ttyUSB0'' \<mapsto> tty_7E1, ''/dev/null'' \<mapsto> tty_7E1\<lparr>s_is_tty := False\<rparr>],
      fds = Map.empty, next_fd = 3, clock = 0, errno = EINVAL,
      stack_termios = \<lparr>c_cflag = 0, c_ispeed = 0, c_ospeed = 0\<rparr>, syslog = []\<rparr>"

text \<open>
  Two open non-blocking descriptors, 3 and 4, the transmitter of 3 wired to
  the receiver of 4; and the same with a transmit buffer that has room for two
  bytes only.
\<close>

definition loop_posix :: posix where
  "loop_posix =
     boot\<lparr>fds := [3 \<mapsto> tty_7E1\<lparr>s_nonblock := True, s_peer := Some 4\<rparr>,
                  4 \<mapsto> tty_7E1\<lparr>s_nonblock := True\<rparr>],
          next_fd := 5\<rparr>"

text \<open>
  Two adapters that are not open yet, the transmitter of the first wired to
  the receiver of the second, which will be descriptor 4.
\<close>

definition wired_posix :: posix where
  "wired_posix =
     boot\<lparr>nodes := [''/dev/loop0'' \<mapsto> tty_7E1\<lparr>s_peer := Some 4\<rparr>, ''/dev/loop1'' \<mapsto> tty_7E1]\<rparr>"

definition tight_posix :: posix where
  "tight_posix = boot\<lparr>fds := [3 \<mapsto> tty_7E1\<lparr>s_nonblock := True, s_room := 2\<rparr>], next_fd := 4\<rparr>"

text \<open>
  A Win32 system with a port left at 9600 baud, 7 data bits, even parity
  (\<^verbatim>\<open>EVENPARITY\<close> is 2) and one stop bit (\<^verbatim>\<open>ONESTOPBIT\<close> is 0), and a
  device that is not a communications device.
\<close>

definition com_7E1 :: comm where
  "com_7E1 =
     \<lparr>m_is_comm = True, m_rejects = False,
      m_dcb = \<lparr>DCBlength = 28, BaudRate = 9600, ByteSize = 7, Parity = 2, StopBits = 0\<rparr>,
      m_timeouts = False, m_fault = False, m_rx = [], m_room = 4096, m_sent = [],
      m_peer = None, m_line = []\<rparr>"

definition winboot :: win32 where
  "winboot =
     \<lparr>ports = [''COM3'' \<mapsto> com_7E1, ''NUL'' \<mapsto> com_7E1\<lparr>m_is_comm := False\<rparr>],
      handles = Map.empty, next_handle = 0x1F4, ticks = 0, winlog = []\<rparr>"

definition loop_win32 :: win32 where
  "loop_win32 =
     winboot\<lparr>handles := [0x1F4 \<mapsto> com_7E1\<lparr>m_timeouts := True, m_peer := Some 0x1F8\<rparr>,
                          0x1F8 \<mapsto> com_7E1\<lparr>m_timeouts := True\<rparr>],
             next_handle := 0x1FC\<rparr>"

text \<open>
  Two ports that are not open yet, the transmitter of the first wired to the
  receiver of the second, which will be the handle \<^verbatim>\<open>0x1F8\<close>.
\<close>

definition wired_win32 :: win32 where
  "wired_win32 =
     winboot\<lparr>ports := [''COM3'' \<mapsto> com_7E1\<lparr>m_peer := Some 0x1F8\<rparr>, ''COM4'' \<mapsto> com_7E1]\<rparr>"

definition tight_win32 :: win32 where
  "tight_win32 =
     winboot\<lparr>handles := [0x1F4 \<mapsto> com_7E1\<lparr>m_timeouts := True, m_room := 2\<rparr>],
             next_handle := 0x1F8\<rparr>"

section \<open>Properties\<close>

subsection \<open>Unfolding rules\<close>

lemmas posix_defs = sys_open_def sys_tcgetattr_def sys_tcsetattr_def sys_tcsendbreak_def
  sys_usleep_def sys_write_def sys_read_def sys_close_def sys_fail_def sys_ret_def deliver_def
  cfsetispeed_def cfsetospeed_def break_usec_def pending_def

lemmas posix_consts = O_RDWR_def O_NOCTTY_def O_NONBLOCK_def CSIZE_def CS5_def CS6_def CS7_def
  CS8_def CSTOPB_def PARENB_def TCSANOW_def B250000_def

lemmas win32_defs = CreateFileA_def GetCommState_def SetCommState_def set_level_def
  SetCommBreak_def ClearCommBreak_def Sleep_def WriteFile_def ReadFile_def CloseHandle_def
  win_BOOL_def win_log_def wdeliver_def

lemmas win32_consts = INVALID_HANDLE_VALUE_def GENERIC_READ_def GENERIC_WRITE_def
  OPEN_EXISTING_def NOPARITY_def TWOSTOPBITS_def sizeof_DCB_def

subsection \<open>Integer conversions\<close>

text \<open>Values that fit the target type are not changed by a conversion.\<close>

lemma to_int_id: "INT_MIN \<le> v \<Longrightarrow> v \<le> INT_MAX \<Longrightarrow> to_int v = v"
  unfolding to_int_def INT_MIN_def INT_MAX_def
  by (simp add: signed_of_int signed_take_bit_int_eq_self)

lemma to_size_t_id: "0 \<le> v \<Longrightarrow> v \<le> INT_MAX \<Longrightarrow> to_size_t v = nat v"
  unfolding to_size_t_def INT_MAX_def
  by (simp add: unat_eq_nat_uint uint_word_of_int take_bit_int_eq_self)

lemma to_DWORD_id: "0 \<le> v \<Longrightarrow> v \<le> INT_MAX \<Longrightarrow> to_DWORD v = nat v"
  unfolding to_DWORD_def INT_MAX_def
  by (simp add: unat_eq_nat_uint uint_word_of_int take_bit_int_eq_self)

text \<open>A handle below \<open>2^31\<close> comes out of \<^verbatim>\<open>(int)(intptr_t)handle\<close> as itself.\<close>

lemma fd_of_handle_small:
  assumes "h < 0x80000000"
  shows "fd_of_handle h = uint h"
proof -
  from assms have u: "uint h < 2147483648" by (simp add: word_less_def)
  have "sint h = signed_take_bit 63 (uint h)" by (simp add: sint_uint)
  also have "\<dots> = uint h"
  proof (rule signed_take_bit_int_eq_self)
    show "- (2 ^ 63) \<le> uint h" by (rule order_trans [of _ 0]) simp_all
    show "uint h < 2 ^ 63" using u by (rule less_trans) simp
  qed
  finally have s: "sint h = uint h" .
  have "to_int (uint h) = uint h"
  proof (rule to_int_id)
    show "INT_MIN \<le> uint h" unfolding INT_MIN_def by (rule order_trans [of _ 0]) simp_all
    show "uint h \<le> INT_MAX" using u by (simp add: INT_MAX_def)
  qed
  with s show ?thesis by (simp add: fd_of_handle_def)
qed

subsection \<open>What the primitives return\<close>

text \<open>
  \<^verbatim>\<open>write\<close> and \<^verbatim>\<open>read\<close> return -1 or a count that is at most the one
  asked for, \<^verbatim>\<open>WriteFile\<close> and \<^verbatim>\<open>ReadFile\<close> transfer at most the count
  asked for, and each is logged once.
\<close>

lemma sys_write_result:
  assumes "sys_write fd data count w = Some (r, w1)"
  shows "(r = - 1 \<or> (0 \<le> r \<and> r \<le> int count)) \<and>
         syslog w1 = syslog w @ [(Call_write fd data count, r)]"
  using assms
  by (auto simp: sys_write_def sys_fail_def sys_ret_def Let_def split: option.splits if_splits)

lemma sys_read_result:
  assumes "sys_read fd buffer count w = Some ((r, w1), buffer1)"
  shows "(r = - 1 \<or> (0 \<le> r \<and> r \<le> int count)) \<and>
         syslog w1 = syslog w @ [(Call_read fd count, r)]"
  using assms
  by (auto simp: sys_read_def sys_fail_def sys_ret_def Let_def split: option.splits if_splits)

lemma WriteFile_result:
  assumes "WriteFile h data count w = Some ((ok, w1), k)"
  shows "k \<le> count \<and> winlog w1 = winlog w @ [(Call_WriteFile h data count, Ret_BOOL ok)]"
  using assms
  by (auto simp: WriteFile_def win_BOOL_def win_log_def Let_def split: option.splits if_splits)

lemma ReadFile_result:
  assumes "ReadFile h buffer count w = Some ((ok, w1), k, buffer1)"
  shows "k \<le> count \<and> winlog w1 = winlog w @ [(Call_ReadFile h count, Ret_BOOL ok)]"
  using assms
  by (auto simp: ReadFile_def win_BOOL_def win_log_def Let_def split: option.splits if_splits)

subsection \<open>open\<close>

text \<open>
  On the POSIX build the result is -1 when the node cannot be opened, and the
  new descriptor otherwise, whatever \<^verbatim>\<open>tcgetattr\<close> and \<^verbatim>\<open>tcsetattr\<close>
  returned. When both succeed the settings in force are the old ones with the
  speeds replaced and \<^verbatim>\<open>CS8 | CSTOPB\<close> set in the control flags.
\<close>

lemma dmx_open_posix_absent:
  "nodes w port = None \<Longrightarrow> fst (dmx_open_posix port w) = - 1 \<and> fds (snd (dmx_open_posix port w)) = fds w"
  by (simp add: dmx_open_posix_def posix_defs Let_def)

lemma dmx_open_posix_present:
  assumes "nodes w port = Some d"
  shows "fst (dmx_open_posix port w) = int (next_fd w)"
    and "fds (snd (dmx_open_posix port w)) (int (next_fd w)) =
           Some (if s_is_tty d \<and> \<not> s_rejects d
                 then d\<lparr>s_nonblock := True,
                        s_attr := \<lparr>c_cflag = c_cflag (s_attr d) OR (CS8 OR CSTOPB),
                                   c_ispeed = 250000, c_ospeed = 250000\<rparr>\<rparr>
                 else d\<lparr>s_nonblock := True\<rparr>)"
  using assms
  by (simp_all add: dmx_open_posix_def posix_defs posix_consts Let_def split: prod.splits)

lemma dmx_open_posix_sign:
  "fst (dmx_open_posix port w) = - 1 \<or> 0 \<le> fst (dmx_open_posix port w)"
  by (cases "nodes w port") (simp_all add: dmx_open_posix_absent dmx_open_posix_present)

text \<open>
  On the Win32 build the result is -1 when the port cannot be opened or its
  configuration cannot be read or written, and the handle is then closed
  again. On success the four members are those of DMX512, whatever they were.
\<close>

lemma dmx_open_win32_absent:
  "ports w port = None \<Longrightarrow> fst (dmx_open_win32 port w) = - 1 \<and> handles (snd (dmx_open_win32 port w)) = handles w"
  by (simp add: dmx_open_win32_def win32_defs Let_def)

lemma dmx_open_win32_config_failure:
  assumes "ports w port = Some d" and "\<not> m_is_comm d \<or> m_rejects d"
  shows "fst (dmx_open_win32 port w) = - 1"
    and "next_handle w \<noteq> INVALID_HANDLE_VALUE \<Longrightarrow> handles w (next_handle w) = None \<Longrightarrow>
           handles (snd (dmx_open_win32 port w)) = handles w"
  using assms
  by (auto simp add: dmx_open_win32_def win32_defs Let_def split: prod.splits)

lemma dmx_open_win32_success:
  assumes "ports w port = Some d" and "m_is_comm d" and "\<not> m_rejects d"
    and "next_handle w \<noteq> INVALID_HANDLE_VALUE"
  shows "fst (dmx_open_win32 port w) = fd_of_handle (next_handle w)"
    and "handles (snd (dmx_open_win32 port w)) (next_handle w) =
           Some (d\<lparr>m_dcb := (m_dcb d)\<lparr>BaudRate := 250000, ByteSize := 8, Parity := NOPARITY,
                                      StopBits := TWOSTOPBITS\<rparr>\<rparr>)"
  using assms
  by (auto simp add: dmx_open_win32_def win32_defs Let_def split: prod.splits)

lemma dmx_open_win32_sign_small:
  assumes "next_handle w < 0x80000000"
  shows "fst (dmx_open_win32 port w) = - 1 \<or> 0 \<le> fst (dmx_open_win32 port w)"
proof (cases "ports w port")
  case None
  then show ?thesis by (simp add: dmx_open_win32_absent)
next
  case (Some d)
  show ?thesis
  proof (cases "m_is_comm d \<and> \<not> m_rejects d")
    case True
    have "next_handle w \<noteq> INVALID_HANDLE_VALUE"
      using assms by (auto simp: INVALID_HANDLE_VALUE_def)
    with Some True have "fst (dmx_open_win32 port w) = fd_of_handle (next_handle w)"
      by (simp add: dmx_open_win32_success)
    then show ?thesis using assms by (simp add: fd_of_handle_small)
  next
    case False
    with Some have "fst (dmx_open_win32 port w) = - 1"
      by (intro dmx_open_win32_config_failure(1)) auto
    then show ?thesis by simp
  qed
qed

text \<open>
  C2. \<^verbatim>\<open>dmx_open\<close> fails when the device cannot be opened or the line
  configuration cannot be applied, and a handle opened before a configuration
  failure is closed again. The Win32 build does so
  (\<open>dmx_open_win32_config_failure\<close>). The POSIX build does not: opening
  \<^verbatim>\<open>/dev/null\<close>, which is not a terminal, both \<^verbatim>\<open>tcgetattr\<close> and
  \<^verbatim>\<open>tcsetattr\<close> fail with \<^verbatim>\<open>ENOTTY\<close>, and the call still returns the
  descriptor 3, which stays open.
\<close>

theorem open_posix_ignores_configuration_failure:
  "(let (fd, w1) = dmx_open_posix ''/dev/null'' boot in
      fd = 3 \<and> fds w1 3 \<noteq> None \<and> errno w1 = ENOTTY
      \<and> map snd (syslog w1) = [3, - 1, - 1])"
  by (simp add: dmx_open_posix_def boot_def tty_7E1_def posix_defs posix_consts Let_def)

text \<open>
  C3. A successful \<^verbatim>\<open>dmx_open\<close> returns a value that is not negative, and
  a failed one the negative value -1, so the sign tells them apart. On the
  POSIX build the result is the descriptor \<^verbatim>\<open>open\<close> returned when that is
  not negative, and -1 otherwise. On the Win32 build the result is -1 when
  the port cannot be opened or configured, and otherwise the handle converted
  by \<^verbatim>\<open>(int)(intptr_t)handle\<close>, which is the handle's own value, not
  negative, for the handles \<^verbatim>\<open>CreateFileA\<close> gives out: these are indices
  into the handle table of the process, multiples of 4 far below \<open>2^31\<close>.
\<close>

theorem open_result_sign:
  "(fst (sys_open port (O_RDWR OR O_NOCTTY OR O_NONBLOCK) w) < 0 \<longrightarrow>
      fst (dmx_open_posix port w) = - 1)
   \<and> (0 \<le> fst (sys_open port (O_RDWR OR O_NOCTTY OR O_NONBLOCK) w) \<longrightarrow>
      fst (dmx_open_posix port w) = fst (sys_open port (O_RDWR OR O_NOCTTY OR O_NONBLOCK) w))
   \<and> (ports v port = None \<longrightarrow> fst (dmx_open_win32 port v) = - 1)
   \<and> (\<forall>d. ports v port = Some d \<and> (\<not> m_is_comm d \<or> m_rejects d) \<longrightarrow>
         fst (dmx_open_win32 port v) = - 1)
   \<and> (\<forall>d. ports v port = Some d \<and> m_is_comm d \<and> \<not> m_rejects d
          \<and> next_handle v < 0x80000000 \<longrightarrow>
         fst (dmx_open_win32 port v) = uint (next_handle v)
         \<and> 0 \<le> fst (dmx_open_win32 port v))"
proof (intro conjI allI impI)
  assume "fst (sys_open port (O_RDWR OR O_NOCTTY OR O_NONBLOCK) w) < 0"
  then show "fst (dmx_open_posix port w) = - 1"
    by (cases "sys_open port (O_RDWR OR O_NOCTTY OR O_NONBLOCK) w") (simp add: dmx_open_posix_def)
next
  assume "0 \<le> fst (sys_open port (O_RDWR OR O_NOCTTY OR O_NONBLOCK) w)"
  then show "fst (dmx_open_posix port w) = fst (sys_open port (O_RDWR OR O_NOCTTY OR O_NONBLOCK) w)"
    by (cases "sys_open port (O_RDWR OR O_NOCTTY OR O_NONBLOCK) w")
      (simp add: dmx_open_posix_def Let_def split: prod.splits)
next
  assume "ports v port = None"
  then show "fst (dmx_open_win32 port v) = - 1"
    by (simp add: dmx_open_win32_absent)
next
  fix d assume "ports v port = Some d \<and> (\<not> m_is_comm d \<or> m_rejects d)"
  then show "fst (dmx_open_win32 port v) = - 1"
    using dmx_open_win32_config_failure(1) by blast
next
  fix d
  assume a: "ports v port = Some d \<and> m_is_comm d \<and> \<not> m_rejects d
      \<and> next_handle v < 0x80000000"
  then have "next_handle v \<noteq> INVALID_HANDLE_VALUE"
    by (auto simp: INVALID_HANDLE_VALUE_def)
  with a have "fst (dmx_open_win32 port v) = fd_of_handle (next_handle v)"
    by (simp add: dmx_open_win32_success)
  with a show r: "fst (dmx_open_win32 port v) = uint (next_handle v)"
    by (simp add: fd_of_handle_small)
  show "0 \<le> fst (dmx_open_win32 port v)"
    unfolding r by simp
qed

text \<open>
  An adapter that opens gives descriptor 3 and handle 500; a node and a port
  that do not exist, and a device that cannot be configured, give -1.
\<close>

theorem open_result_sign_witness:
  "fst (dmx_open_posix ''/dev/ttyUSB0'' boot) = 3
   \<and> fst (dmx_open_posix ''/dev/ttyS9'' boot) = - 1
   \<and> fst (dmx_open_win32 ''COM3'' winboot) = 500
   \<and> fst (dmx_open_win32 ''COM9'' winboot) = - 1
   \<and> fst (dmx_open_win32 ''NUL'' winboot) = - 1"
proof -
  note t = open_result_sign [where w = boot and v = winboot]
  have 1: "fst (dmx_open_posix ''/dev/ttyUSB0'' boot) =
      fst (sys_open ''/dev/ttyUSB0'' (O_RDWR OR O_NOCTTY OR O_NONBLOCK) boot)"
    by (rule t [of "''/dev/ttyUSB0''", THEN conjunct2, THEN conjunct1, rule_format])
      (simp add: boot_def posix_defs)
  have 2: "fst (dmx_open_posix ''/dev/ttyS9'' boot) = - 1"
    by (rule t [of "''/dev/ttyS9''", THEN conjunct1, rule_format])
      (simp add: boot_def posix_defs)
  have 3: "fst (dmx_open_win32 ''COM3'' winboot) = uint (next_handle winboot)
      \<and> 0 \<le> fst (dmx_open_win32 ''COM3'' winboot)"
    by (rule t [of "''COM3''", THEN conjunct2, THEN conjunct2, THEN conjunct2, THEN conjunct2,
          rule_format, of com_7E1])
      (simp add: winboot_def com_7E1_def)
  have 4: "fst (dmx_open_win32 ''COM9'' winboot) = - 1"
    by (rule t [of "''COM9''", THEN conjunct2, THEN conjunct2, THEN conjunct1, rule_format])
      (simp add: winboot_def)
  have 5: "fst (dmx_open_win32 ''NUL'' winboot) = - 1"
    by (rule t [of "''NUL''", THEN conjunct2, THEN conjunct2, THEN conjunct2, THEN conjunct1,
          rule_format, of "com_7E1\<lparr>m_is_comm := False\<rparr>"])
      (simp add: winboot_def)
  from 1 have 1: "fst (dmx_open_posix ''/dev/ttyUSB0'' boot) = 3"
    by (simp add: boot_def posix_defs)
  from 3 have 3: "fst (dmx_open_win32 ''COM3'' winboot) = 500"
    by (simp add: winboot_def)
  show ?thesis by (simp only: 1 2 3 4 5 simp_thms)
qed

text \<open>
  The bound on the handle is what the conversion needs: the low 32 bits of a
  value with bit 31 set are a negative \<^verbatim>\<open>int\<close>.
\<close>

lemma fd_of_handle_bit_31: "fd_of_handle 0x80000000 = - 2147483648"
  by (simp add: fd_of_handle_def to_int_def)

text \<open>
  C4. After a successful \<^verbatim>\<open>dmx_open\<close> the line is at 250000 baud, 8 data
  bits, no parity and 2 stop bits, whatever it was before. The Win32 build does
  so (\<open>dmx_open_win32_success\<close>). The POSIX build sets the speeds and the bits
  of \<^verbatim>\<open>CS8\<close> and \<^verbatim>\<open>CSTOPB\<close> but never clears \<^verbatim>\<open>PARENB\<close>: a line left
  at 7 data bits with even parity is at 8 data bits with parity still enabled
  after a call in which every primitive succeeded.
\<close>

theorem open_posix_keeps_parity:
  "(let (fd, w1) = dmx_open_posix ''/dev/ttyUSB0'' boot in
      fd = 3 \<and> map snd (syslog w1) = [3, 0, 0] \<and>
      (case fds w1 fd of
         None \<Rightarrow> False
       | Some d \<Rightarrow>
           s_attr d = \<lparr>c_cflag = PARENB OR CS8 OR CSTOPB, c_ispeed = 250000, c_ospeed = 250000\<rparr>
           \<and> c_cflag (s_attr d) AND PARENB = PARENB))"
  by (simp add: dmx_open_posix_def boot_def tty_7E1_def posix_defs posix_consts Let_def)

subsection \<open>send-break\<close>

text \<open>
  On the POSIX build the line is at BREAK for 250000 microseconds and has
  been back at MARK for 12 microseconds when the call returns. On the Win32
  build it is at BREAK for 1000 microseconds, and the call returns at the
  moment the line is back at MARK.
\<close>

lemma dmx_send_break_posix_timing:
  assumes "fds w fd = Some d" and "s_is_tty d"
  shows "clock (dmx_send_break_posix fd w) = clock w + 250012"
    and "fds (dmx_send_break_posix fd w) fd =
           Some (d\<lparr>s_line := s_line d @ [(clock w, BREAK), (clock w + 250000, MARK)]\<rparr>)"
    and "break_then_mab [(clock w, BREAK), (clock w + 250000, MARK)] (clock (dmx_send_break_posix fd w))"
  using assms
  by (simp_all add: dmx_send_break_posix_def posix_defs Let_def DMX_MIN_BREAK_US_def DMX_MIN_MAB_US_def)

lemma dmx_send_break_win32_timing:
  assumes "handles w (handle_of_fd fd) = Some d" and "m_is_comm d"
  shows "ticks (dmx_send_break_win32 fd w) = ticks w + 1000"
    and "handles (dmx_send_break_win32 fd w) (handle_of_fd fd) =
           Some (d\<lparr>m_line := m_line d @ [(ticks w, BREAK), (ticks w + 1000, MARK)]\<rparr>)"
    and "\<not> break_then_mab [(ticks w, BREAK), (ticks w + 1000, MARK)] (ticks (dmx_send_break_win32 fd w))"
  using assms
  by (simp_all add: dmx_send_break_win32_def win32_defs Let_def DMX_MIN_BREAK_US_def DMX_MIN_MAB_US_def)

text \<open>
  C5. \<^verbatim>\<open>dmx_send_break\<close> holds BREAK for at least 88 microseconds, returns
  the line to MARK and holds MARK for at least 8 microseconds before it
  returns. The POSIX build does so (\<open>dmx_send_break_posix_timing\<close>). On the
  Win32 build \<^verbatim>\<open>ClearCommBreak\<close> is the last call: MARK has been held for 0
  microseconds when \<^verbatim>\<open>dmx_send_break\<close> returns.
\<close>

theorem send_break_win32_no_mark_hold:
  "(let (fd, w1) = dmx_open_win32 ''COM3'' winboot; w2 = dmx_send_break_win32 fd w1 in
      fd = 500 \<and>
      map snd (winlog w2) =
        [Ret_HANDLE 500, Ret_BOOL True, Ret_BOOL True, Ret_BOOL True, Ret_void, Ret_BOOL True] \<and>
      (case handles w2 (handle_of_fd fd) of
         None \<Rightarrow> False
       | Some d \<Rightarrow>
           m_line d = [(0, BREAK), (1000, MARK)] \<and> ticks w2 = 1000
           \<and> \<not> break_then_mab (m_line d) (ticks w2) \<and> mark_held (m_line d) (ticks w2) = 0))"
  by (simp add: dmx_open_win32_def dmx_send_break_win32_def winboot_def com_7E1_def win32_defs
      win32_consts Let_def fd_of_handle_def handle_of_fd_def to_int_def DMX_MIN_MAB_US_def
      DMX_MIN_BREAK_US_def)

subsection \<open>read-frame\<close>

text \<open>
  With nothing pending, the POSIX build returns -1 on a non-blocking
  descriptor: \<^verbatim>\<open>read\<close> fails with \<^verbatim>\<open>EAGAIN\<close>, and any negative result
  becomes -1. The Win32 build returns 0 under time-outs and does not return
  without them.
\<close>

lemma dmx_read_frame_posix_no_data:
  assumes "fds w fd = Some d" and "s_nonblock d" and "\<not> s_fault d" and "s_rx d = []"
    and "0 < max_len" and "max_len \<le> INT_MAX" and "nat max_len \<le> length buffer"
  shows "dmx_read_frame_posix fd buffer max_len w =
           Some ((- 1, w\<lparr>errno := EAGAIN, syslog := syslog w @ [(Call_read fd (nat max_len), - 1)]\<rparr>), buffer)"
  using assms
  by (simp add: dmx_read_frame_posix_def to_size_t_id posix_defs to_int_def)

lemma dmx_read_frame_win32_no_data:
  assumes "handles w (handle_of_fd fd) = Some d" and "\<not> m_fault d" and "m_rx d = []"
    and "0 < len" and "len \<le> INT_MAX" and "nat len \<le> length buffer"
  shows "map_option (\<lambda>((n, w1), buffer1). (n, buffer1)) (dmx_read_frame_win32 fd buffer len w) =
           (if m_timeouts d then Some (0, buffer) else None)"
  using assms
  by (simp add: dmx_read_frame_win32_def to_DWORD_id win32_defs to_int_def Let_def)

text \<open>For a length that is not negative each build returns what its primitive reports.\<close>

lemma dmx_read_frame_posix_eq:
  assumes "0 \<le> max_len" and "max_len \<le> INT_MAX"
  shows "dmx_read_frame_posix fd buffer max_len w = sys_read fd buffer (nat max_len) w"
proof (cases "sys_read fd buffer (nat max_len) w")
  case None
  then show ?thesis using assms by (simp add: dmx_read_frame_posix_def to_size_t_id)
next
  case (Some p)
  obtain r w1 b where p: "p = ((r, w1), b)" by (cases p) auto
  from sys_read_result [OF Some [unfolded p]] assms
  have r: "r = - 1 \<or> 0 \<le> r" and "INT_MIN \<le> r" and "r \<le> INT_MAX"
    by (auto simp: INT_MIN_def INT_MAX_def)
  then have "to_int r = r" by (simp add: to_int_id)
  then show ?thesis using Some p assms r
    by (auto simp add: dmx_read_frame_posix_def to_size_t_id)
qed

lemma dmx_read_frame_win32_eq:
  assumes "0 \<le> len" and "len \<le> INT_MAX"
  shows "dmx_read_frame_win32 fd buffer len w =
    (case ReadFile (handle_of_fd fd) buffer (nat len) w of
       None \<Rightarrow> None
     | Some ((ok, w1), k, buffer1) \<Rightarrow> Some ((if ok then int k else - 1, w1), buffer1))"
proof (cases "ReadFile (handle_of_fd fd) buffer (nat len) w")
  case None
  then show ?thesis using assms by (simp add: dmx_read_frame_win32_def to_DWORD_id)
next
  case (Some p)
  obtain ok w1 k b where p: "p = ((ok, w1), k, b)" by (cases p) auto
  from ReadFile_result [OF Some [unfolded p]] assms
  have "INT_MIN \<le> int k" and "int k \<le> INT_MAX" by (auto simp: INT_MIN_def INT_MAX_def)
  then have "to_int (int k) = int k" by (rule to_int_id)
  then show ?thesis using Some p assms by (simp add: dmx_read_frame_win32_def to_DWORD_id)
qed

text \<open>
  C1. \<^verbatim>\<open>dmx_read_frame\<close> on an open handle with no data available returns 0,
  and a negative value only for an error other than that. On the POSIX build
  the descriptor that \<^verbatim>\<open>dmx_open\<close> has just returned, with nothing received,
  gives -1: \<^verbatim>\<open>read\<close> reports \<^verbatim>\<open>EAGAIN\<close>, which \<^verbatim>\<open>dmx_read_frame\<close> does
  not tell from other errors.
\<close>

theorem read_frame_no_data_fails_posix:
  "(let (fd, w1) = dmx_open_posix ''/dev/ttyUSB0'' boot in
      fd = 3 \<and>
      (case dmx_read_frame_posix fd (replicate 16 0) 16 w1 of
         None \<Rightarrow> False
       | Some ((n, w2), buffer) \<Rightarrow>
           n = - 1 \<and> errno w2 = EAGAIN \<and> last (syslog w2) = (Call_read 3 16, - 1)
           \<and> buffer = replicate 16 0))"
  by (simp add: dmx_open_posix_def dmx_read_frame_posix_def boot_def tty_7E1_def posix_defs
      posix_consts to_size_t_def to_int_def Let_def)

subsection \<open>write\<close>

text \<open>For a length that is not negative each build returns what its primitive reports.\<close>

lemma dmx_write_posix_eq:
  assumes "0 \<le> len" and "len \<le> INT_MAX"
  shows "dmx_write_posix fd data len w = sys_write fd data (nat len) w"
proof (cases "sys_write fd data (nat len) w")
  case None
  then show ?thesis using assms by (simp add: dmx_write_posix_def to_size_t_id)
next
  case (Some p)
  obtain r w1 where p: "p = (r, w1)" by (cases p)
  from sys_write_result [OF Some [unfolded p]] assms
  have "INT_MIN \<le> r" and "r \<le> INT_MAX" by (auto simp: INT_MIN_def INT_MAX_def)
  then have "to_int r = r" by (rule to_int_id)
  then show ?thesis using Some p assms by (simp add: dmx_write_posix_def to_size_t_id)
qed

lemma dmx_write_win32_eq:
  assumes "0 \<le> len" and "len \<le> INT_MAX"
  shows "dmx_write_win32 fd data len w =
    (case WriteFile (handle_of_fd fd) data (nat len) w of
       None \<Rightarrow> None
     | Some ((ok, w1), k) \<Rightarrow> Some (if ok then int k else - 1, w1))"
proof (cases "WriteFile (handle_of_fd fd) data (nat len) w")
  case None
  then show ?thesis using assms by (simp add: dmx_write_win32_def to_DWORD_id)
next
  case (Some p)
  obtain ok w1 k where p: "p = ((ok, w1), k)" by (cases p) auto
  from WriteFile_result [OF Some [unfolded p]] assms
  have "INT_MIN \<le> int k" and "int k \<le> INT_MAX" by (auto simp: INT_MIN_def INT_MAX_def)
  then have "to_int (int k) = int k" by (rule to_int_id)
  then show ?thesis using Some p assms by (simp add: dmx_write_win32_def to_DWORD_id)
qed

text \<open>
  C6. For a length \<open>len\<close> with \<open>0 \<le> len\<close>, \<^verbatim>\<open>dmx_write\<close> is one call of
  the write primitive: on the POSIX build its result and effect are those of
  \<^verbatim>\<open>write(fd, data, len)\<close>, which is logged once, returns at most \<open>len\<close>
  and is negative exactly when it is the error value -1; on the Win32 build
  \<^verbatim>\<open>WriteFile\<close> is logged once, and the result is the number of bytes
  written, at most \<open>len\<close>, when it returned true, and -1 when it returned
  false. When the primitive does not return, neither does \<^verbatim>\<open>dmx_write\<close>.
\<close>

theorem write_one_call_count_or_error:
  assumes "0 \<le> len" and "len \<le> INT_MAX"
  shows "dmx_write_posix fd data len w = sys_write fd data (nat len) w
       \<and> (\<forall>r w1. sys_write fd data (nat len) w = Some (r, w1) \<longrightarrow>
             syslog w1 = syslog w @ [(Call_write fd data (nat len), r)]
             \<and> r \<le> len \<and> (r < 0) = (r = - 1))
       \<and> (\<forall>ok v1 k. WriteFile (handle_of_fd fd) data (nat len) v = Some ((ok, v1), k) \<longrightarrow>
             dmx_write_win32 fd data len v = Some (if ok then int k else - 1, v1)
             \<and> winlog v1 = winlog v @ [(Call_WriteFile (handle_of_fd fd) data (nat len), Ret_BOOL ok)]
             \<and> int k \<le> len \<and> ((if ok then int k else - 1) < 0) = (\<not> ok))
       \<and> (WriteFile (handle_of_fd fd) data (nat len) v = None \<longrightarrow>
             dmx_write_win32 fd data len v = None)"
proof (intro conjI allI impI)
  show "dmx_write_posix fd data len w = sys_write fd data (nat len) w"
    using assms by (rule dmx_write_posix_eq)
next
  fix r w1 assume a: "sys_write fd data (nat len) w = Some (r, w1)"
  from sys_write_result [OF a] assms
  show "syslog w1 = syslog w @ [(Call_write fd data (nat len), r)]"
    and "r \<le> len" and "(r < 0) = (r = - 1)"
    by auto
next
  fix ok v1 k assume a: "WriteFile (handle_of_fd fd) data (nat len) v = Some ((ok, v1), k)"
  show "dmx_write_win32 fd data len v = Some (if ok then int k else - 1, v1)"
    using a assms by (simp add: dmx_write_win32_eq)
  from WriteFile_result [OF a] assms
  show "winlog v1 = winlog v @ [(Call_WriteFile (handle_of_fd fd) data (nat len), Ret_BOOL ok)]"
    and "int k \<le> len" and "((if ok then int k else - 1) < 0) = (\<not> ok)"
    by auto
next
  assume "WriteFile (handle_of_fd fd) data (nat len) v = None"
  then show "dmx_write_win32 fd data len v = None"
    using assms by (simp add: dmx_write_win32_eq)
qed

text \<open>
  A driver with room for two bytes takes two of three: the result is 2 on both
  builds, after one call of the primitive.
\<close>

lemma tight_posix_write:
  "sys_write 3 [0x00, 0x01, 0xFF] 3 tight_posix =
     Some (2, tight_posix\<lparr>fds := [3 \<mapsto> tty_7E1\<lparr>s_nonblock := True, s_room := 0, s_sent := [0x00, 0x01]\<rparr>],
                          syslog := [(Call_write 3 [0x00, 0x01, 0xFF] 3, 2)]\<rparr>)"
  by (simp add: tight_posix_def boot_def tty_7E1_def posix_defs Let_def)

lemma tight_win32_write:
  "WriteFile (handle_of_fd 500) [0x00, 0x01, 0xFF] 3 tight_win32 =
     Some ((True, tight_win32\<lparr>handles := [0x1F4 \<mapsto> com_7E1\<lparr>m_timeouts := True, m_room := 0, m_sent := [0x00, 0x01]\<rparr>],
                          winlog := [(Call_WriteFile 0x1F4 [0x00, 0x01, 0xFF] 3, Ret_BOOL True)]\<rparr>), 2)"
  by (simp add: tight_win32_def winboot_def com_7E1_def win32_defs Let_def handle_of_fd_def)

theorem write_one_call_count_or_error_witness:
  "dmx_write_posix 3 [0x00, 0x01, 0xFF] 3 tight_posix =
     Some (2, tight_posix\<lparr>fds := [3 \<mapsto> tty_7E1\<lparr>s_nonblock := True, s_room := 0, s_sent := [0x00, 0x01]\<rparr>],
                          syslog := [(Call_write 3 [0x00, 0x01, 0xFF] 3, 2)]\<rparr>)
   \<and> dmx_write_win32 500 [0x00, 0x01, 0xFF] 3 tight_win32 =
     Some (2, tight_win32\<lparr>handles := [0x1F4 \<mapsto> com_7E1\<lparr>m_timeouts := True, m_room := 0, m_sent := [0x00, 0x01]\<rparr>],
                          winlog := [(Call_WriteFile 0x1F4 [0x00, 0x01, 0xFF] 3, Ret_BOOL True)]\<rparr>)"
proof -
  have h: "(0::int) \<le> 3" "(3::int) \<le> INT_MAX" by (simp_all add: INT_MAX_def)
  note t = write_one_call_count_or_error [OF h, where data = "[0x00, 0x01, 0xFF]"
      and w = tight_posix and v = tight_win32]
  have "dmx_write_posix 3 [0x00, 0x01, 0xFF] 3 tight_posix =
      sys_write 3 [0x00, 0x01, 0xFF] (nat 3) tight_posix"
    by (rule t [of 3, THEN conjunct1])
  then have 1: "dmx_write_posix 3 [0x00, 0x01, 0xFF] 3 tight_posix =
     Some (2, tight_posix\<lparr>fds := [3 \<mapsto> tty_7E1\<lparr>s_nonblock := True, s_room := 0, s_sent := [0x00, 0x01]\<rparr>],
                          syslog := [(Call_write 3 [0x00, 0x01, 0xFF] 3, 2)]\<rparr>)"
    by (simp add: tight_posix_write)
  have "dmx_write_win32 500 [0x00, 0x01, 0xFF] 3 tight_win32 =
     Some (if True then int 2 else - 1,
           tight_win32\<lparr>handles := [0x1F4 \<mapsto> com_7E1\<lparr>m_timeouts := True, m_room := 0, m_sent := [0x00, 0x01]\<rparr>],
                       winlog := [(Call_WriteFile 0x1F4 [0x00, 0x01, 0xFF] 3, Ret_BOOL True)]\<rparr>)"
    by (rule t [of 500, THEN conjunct2, THEN conjunct2, THEN conjunct1, rule_format, THEN conjunct1])
      (simp add: tight_win32_write)
  then have 2: "dmx_write_win32 500 [0x00, 0x01, 0xFF] 3 tight_win32 =
     Some (2, tight_win32\<lparr>handles := [0x1F4 \<mapsto> com_7E1\<lparr>m_timeouts := True, m_room := 0, m_sent := [0x00, 0x01]\<rparr>],
                          winlog := [(Call_WriteFile 0x1F4 [0x00, 0x01, 0xFF] 3, Ret_BOOL True)]\<rparr>)"
    by simp
  show ?thesis by (simp only: 1 2 simp_thms)
qed

text \<open>
  C8. \<^verbatim>\<open>dmx_write\<close> hands the caller's data and length to the write
  primitive as they are: the one call logged has the caller's buffer and the
  length converted to the primitive's unsigned type, which for a length that is
  not negative is the length itself; the result is the primitive's. No length
  is refused or cut, 513 or more included: when the driver has room for the
  whole buffer the result is its length and the bytes sent are the buffer's,
  the first one included.
\<close>

theorem write_passes_data_and_length:
  "(case dmx_write_posix fd data len w of
      None \<Rightarrow> sys_write fd data (to_size_t len) w = None
    | Some (n, w1) \<Rightarrow>
        (\<exists>r. sys_write fd data (to_size_t len) w = Some (r, w1) \<and> n = to_int r
           \<and> syslog w1 = syslog w @ [(Call_write fd data (to_size_t len), r)]))
   \<and> (case dmx_write_win32 fd data len v of
      None \<Rightarrow> WriteFile (handle_of_fd fd) data (to_DWORD len) v = None
    | Some (n, v1) \<Rightarrow>
        (\<exists>ok k. WriteFile (handle_of_fd fd) data (to_DWORD len) v = Some ((ok, v1), k)
           \<and> n = (if ok then to_int (int k) else - 1)
           \<and> winlog v1 = winlog v @ [(Call_WriteFile (handle_of_fd fd) data (to_DWORD len), Ret_BOOL ok)]))
   \<and> (0 \<le> len \<and> len \<le> INT_MAX \<longrightarrow> to_size_t len = nat len \<and> to_DWORD len = nat len)
   \<and> (\<forall>d. fds w fd = Some d \<and> \<not> s_fault d \<and> len = int (length data) \<and> len \<le> INT_MAX
          \<and> length data \<le> s_room d \<longrightarrow>
        (\<exists>w1. dmx_write_posix fd data len w = Some (len, w1)
           \<and> map_option s_sent (fds w1 fd) = Some (s_sent d @ data)))
   \<and> (\<forall>d. handles v (handle_of_fd fd) = Some d \<and> \<not> m_fault d \<and> len = int (length data)
          \<and> len \<le> INT_MAX \<and> length data \<le> m_room d \<longrightarrow>
        (\<exists>v1. dmx_write_win32 fd data len v = Some (len, v1)
           \<and> map_option m_sent (handles v1 (handle_of_fd fd)) = Some (m_sent d @ data)))"
proof (intro conjI allI impI)
  show "case dmx_write_posix fd data len w of
      None \<Rightarrow> sys_write fd data (to_size_t len) w = None
    | Some (n, w1) \<Rightarrow>
        (\<exists>r. sys_write fd data (to_size_t len) w = Some (r, w1) \<and> n = to_int r
           \<and> syslog w1 = syslog w @ [(Call_write fd data (to_size_t len), r)])"
    by (auto simp: dmx_write_posix_def dest: sys_write_result split: option.splits)
next
  show "case dmx_write_win32 fd data len v of
      None \<Rightarrow> WriteFile (handle_of_fd fd) data (to_DWORD len) v = None
    | Some (n, v1) \<Rightarrow>
        (\<exists>ok k. WriteFile (handle_of_fd fd) data (to_DWORD len) v = Some ((ok, v1), k)
           \<and> n = (if ok then to_int (int k) else - 1)
           \<and> winlog v1 = winlog v @ [(Call_WriteFile (handle_of_fd fd) data (to_DWORD len), Ret_BOOL ok)])"
    by (auto simp: dmx_write_win32_def Let_def dest: WriteFile_result split: option.splits if_splits)
next
  assume "0 \<le> len \<and> len \<le> INT_MAX"
  then show "to_size_t len = nat len" and "to_DWORD len = nat len"
    by (simp_all add: to_size_t_id to_DWORD_id)
next
  fix d
  assume a: "fds w fd = Some d \<and> \<not> s_fault d \<and> len = int (length data) \<and> len \<le> INT_MAX
          \<and> length data \<le> s_room d"
  then have "dmx_write_posix fd data len w = sys_write fd data (length data) w"
    by (simp add: dmx_write_posix_eq)
  with a show "\<exists>w1. dmx_write_posix fd data len w = Some (len, w1)
           \<and> map_option s_sent (fds w1 fd) = Some (s_sent d @ data)"
    by (auto simp: posix_defs Let_def min_def split: option.splits)
next
  fix d
  assume a: "handles v (handle_of_fd fd) = Some d \<and> \<not> m_fault d \<and> len = int (length data)
          \<and> len \<le> INT_MAX \<and> length data \<le> m_room d"
  then show "\<exists>v1. dmx_write_win32 fd data len v = Some (len, v1)
           \<and> map_option m_sent (handles v1 (handle_of_fd fd)) = Some (m_sent d @ data)"
    by (auto simp: dmx_write_win32_eq win32_defs Let_def min_def split: option.splits)
qed

text \<open>A buffer of 600 bytes with the start code \<^verbatim>\<open>0xCC\<close> is sent whole and unchanged.\<close>

theorem write_passes_data_and_length_witness:
  "(\<exists>w1. dmx_write_posix 3 (0xCC # replicate 599 0x55) 600 loop_posix = Some (600, w1)
      \<and> map_option s_sent (fds w1 3) = Some (0xCC # replicate 599 0x55))
   \<and> (\<exists>v1. dmx_write_win32 500 (0xCC # replicate 599 0x55) 600 loop_win32 = Some (600, v1)
      \<and> map_option m_sent (handles v1 (handle_of_fd 500)) = Some (0xCC # replicate 599 0x55))"
proof -
  note t = write_passes_data_and_length [where data = "0xCC # replicate 599 0x55" and len = 600
      and w = loop_posix and v = loop_win32]
  have p: "fds loop_posix 3 = Some (tty_7E1\<lparr>s_nonblock := True, s_peer := Some 4\<rparr>)"
    by (simp add: loop_posix_def boot_def)
  have q: "handles loop_win32 (handle_of_fd 500) = Some (com_7E1\<lparr>m_timeouts := True, m_peer := Some 0x1F8\<rparr>)"
    by (simp add: loop_win32_def winboot_def handle_of_fd_def)
  have A: "\<forall>d. fds loop_posix 3 = Some d \<and> \<not> s_fault d
          \<and> (600::int) = int (length (0xCC # replicate 599 (0x55::byte))) \<and> (600::int) \<le> INT_MAX
          \<and> length (0xCC # replicate 599 (0x55::byte)) \<le> s_room d \<longrightarrow>
        (\<exists>w1. dmx_write_posix 3 (0xCC # replicate 599 0x55) 600 loop_posix = Some (600, w1)
           \<and> map_option s_sent (fds w1 3) = Some (s_sent d @ 0xCC # replicate 599 0x55))"
    using t [of 3] by (elim conjE)
  have B: "\<forall>d. handles loop_win32 (handle_of_fd 500) = Some d \<and> \<not> m_fault d
          \<and> (600::int) = int (length (0xCC # replicate 599 (0x55::byte))) \<and> (600::int) \<le> INT_MAX
          \<and> length (0xCC # replicate 599 (0x55::byte)) \<le> m_room d \<longrightarrow>
        (\<exists>v1. dmx_write_win32 500 (0xCC # replicate 599 0x55) 600 loop_win32 = Some (600, v1)
           \<and> map_option m_sent (handles v1 (handle_of_fd 500)) = Some (m_sent d @ 0xCC # replicate 599 0x55))"
    using t [of 500] by (elim conjE)
  have 1: "\<exists>w1. dmx_write_posix 3 (0xCC # replicate 599 0x55) 600 loop_posix = Some (600, w1)
      \<and> map_option s_sent (fds w1 3) =
          Some (s_sent (tty_7E1\<lparr>s_nonblock := True, s_peer := Some 4\<rparr>) @ 0xCC # replicate 599 0x55)"
    by (rule A [rule_format]) (simp add: p tty_7E1_def INT_MAX_def)
  have 2: "\<exists>v1. dmx_write_win32 500 (0xCC # replicate 599 0x55) 600 loop_win32 = Some (600, v1)
      \<and> map_option m_sent (handles v1 (handle_of_fd 500)) =
          Some (m_sent (com_7E1\<lparr>m_timeouts := True, m_peer := Some 0x1F8\<rparr>) @ 0xCC # replicate 599 0x55)"
    by (rule B [rule_format]) (simp add: q com_7E1_def INT_MAX_def)
  from 1 2 show ?thesis by (simp add: tty_7E1_def com_7E1_def)
qed

subsection \<open>Round trip\<close>

text \<open>
  Two open handles \<open>a\<close> and \<open>b\<close> are a loopback pair when the transmitter
  of \<open>a\<close> is wired to the receiver of \<open>b\<close>. Where the receiving terminal
  is in non-canonical mode (on the Win32 build: where time-outs are in force,
  or the read asks for exactly the length written), neither end is faulty,
  nothing is pending at \<open>b\<close> and the driver of \<open>a\<close> has room, the two
  wrappers add nothing of their own: what \<^verbatim>\<open>dmx_write\<close> takes,
  \<^verbatim>\<open>dmx_read_frame\<close> hands back.
\<close>

lemma loopback_round_trip_raw:
  assumes "1 \<le> length data" and "length data \<le> 513"
    and "int (length data) \<le> max_len" and "max_len \<le> INT_MAX"
    and "nat max_len \<le> length buffer"
  shows "(\<forall>da db. fds w a = Some da \<and> fds w b = Some db \<and> a \<noteq> b \<and> s_peer da = Some b
            \<and> \<not> s_fault da \<and> \<not> s_fault db \<and> s_rx db = [] \<and> length data \<le> s_room da
            \<and> \<not> s_canonical db \<longrightarrow>
          (\<exists>w1 w2 buffer1.
             dmx_write_posix a data (int (length data)) w = Some (int (length data), w1)
           \<and> dmx_read_frame_posix b buffer max_len w1 = Some ((int (length data), w2), buffer1)
           \<and> take (length data) buffer1 = data))
       \<and> (\<forall>da db. handles v (handle_of_fd a) = Some da \<and> handles v (handle_of_fd b) = Some db
            \<and> handle_of_fd a \<noteq> handle_of_fd b \<and> m_peer da = Some (handle_of_fd b)
            \<and> \<not> m_fault da \<and> \<not> m_fault db \<and> m_rx db = [] \<and> length data \<le> m_room da
            \<and> (m_timeouts db \<or> max_len = int (length data)) \<longrightarrow>
          (\<exists>v1 v2 buffer1.
             dmx_write_win32 a data (int (length data)) v = Some (int (length data), v1)
           \<and> dmx_read_frame_win32 b buffer max_len v1 = Some ((int (length data), v2), buffer1)
           \<and> take (length data) buffer1 = data))"
proof (intro conjI allI impI)
  fix da db
  assume h: "fds w a = Some da \<and> fds w b = Some db \<and> a \<noteq> b \<and> s_peer da = Some b
            \<and> \<not> s_fault da \<and> \<not> s_fault db \<and> s_rx db = [] \<and> length data \<le> s_room da
            \<and> \<not> s_canonical db"
  have len: "0 \<le> int (length data)" "int (length data) \<le> INT_MAX"
    using assms by (simp_all add: INT_MAX_def)
  have mx: "0 \<le> max_len" using assms by simp
  have m: "min (nat max_len) (length data) = length data" using assms by simp
  define w1 where "w1 = snd (the (sys_write a data (length data) w))"
  have wr: "sys_write a data (length data) w = Some (int (length data), w1)"
    and b1: "fds w1 b = Some (db\<lparr>s_rx := data\<rparr>)"
    using h assms(1) unfolding w1_def
    by (auto simp: posix_defs Let_def min_def)
  have rd: "\<exists>w2. sys_read b buffer (nat max_len) w1 =
              Some ((int (length data), w2), data @ drop (length data) buffer)"
    using b1 h assms m by (auto simp: posix_defs Let_def)
  then obtain w2 where rd2: "sys_read b buffer (nat max_len) w1 =
              Some ((int (length data), w2), data @ drop (length data) buffer)" ..
  show "\<exists>w1 w2 buffer1.
             dmx_write_posix a data (int (length data)) w = Some (int (length data), w1)
           \<and> dmx_read_frame_posix b buffer max_len w1 = Some ((int (length data), w2), buffer1)
           \<and> take (length data) buffer1 = data"
    using wr rd2 by (intro exI [of _ w1] exI [of _ w2] exI [of _ "data @ drop (length data) buffer"])
      (simp add: dmx_write_posix_eq [OF len] dmx_read_frame_posix_eq [OF mx assms(4)])
next
  fix da db
  assume h: "handles v (handle_of_fd a) = Some da \<and> handles v (handle_of_fd b) = Some db
            \<and> handle_of_fd a \<noteq> handle_of_fd b \<and> m_peer da = Some (handle_of_fd b)
            \<and> \<not> m_fault da \<and> \<not> m_fault db \<and> m_rx db = [] \<and> length data \<le> m_room da
            \<and> (m_timeouts db \<or> max_len = int (length data))"
  have len: "0 \<le> int (length data)" "int (length data) \<le> INT_MAX"
    using assms by (simp_all add: INT_MAX_def)
  have mx: "0 \<le> max_len" using assms by simp
  have m: "min (nat max_len) (length data) = length data" using assms by simp
  define v1 where "v1 = snd (fst (the (WriteFile (handle_of_fd a) data (length data) v)))"
  have wr: "WriteFile (handle_of_fd a) data (length data) v = Some ((True, v1), length data)"
    and b1: "handles v1 (handle_of_fd b) = Some (db\<lparr>m_rx := data\<rparr>)"
    using h assms(1) unfolding v1_def
    by (auto simp: win32_defs Let_def min_def)
  have rd: "\<exists>v2. ReadFile (handle_of_fd b) buffer (nat max_len) v1 =
              Some ((True, v2), length data, data @ drop (length data) buffer)"
    using b1 h assms m by (auto simp: win32_defs Let_def)
  then obtain v2 where rd2: "ReadFile (handle_of_fd b) buffer (nat max_len) v1 =
              Some ((True, v2), length data, data @ drop (length data) buffer)" ..
  show "\<exists>v1 v2 buffer1.
             dmx_write_win32 a data (int (length data)) v = Some (int (length data), v1)
           \<and> dmx_read_frame_win32 b buffer max_len v1 = Some ((int (length data), v2), buffer1)
           \<and> take (length data) buffer1 = data"
    using wr rd2 by (intro exI [of _ v1] exI [of _ v2] exI [of _ "data @ drop (length data) buffer"])
      (simp add: dmx_write_win32_eq [OF len] dmx_read_frame_win32_eq [OF mx assms(4)])
qed

text \<open>
  C7. For every buffer of 1 to 513 bytes written on one end of a loopback
  pair, a read on the other end returns the same number of bytes with the
  same content. On the POSIX build the handles \<^verbatim>\<open>dmx_open\<close> returns do not
  meet this: \<^verbatim>\<open>dmx_open\<close> sets speeds and control flags only and leaves the
  terminal in canonical mode, in which received bytes are handed to
  \<^verbatim>\<open>read\<close> only once a newline has arrived. After the two ends are opened
  and the bytes 0x00, 0x01, 0xFF are written (\<^verbatim>\<open>dmx_write\<close> returns 3 and
  the three bytes are in the receive queue of the other end),
  \<^verbatim>\<open>dmx_read_frame\<close> with a buffer of 16 returns -1 and stores nothing.
\<close>

theorem loopback_read_fails_canonical:
  "(let (a, w1) = dmx_open_posix ''/dev/loop0'' wired_posix;
        (b, w2) = dmx_open_posix ''/dev/loop1'' w1 in
    a = 3 \<and> b = 4 \<and>
    (case dmx_write_posix a [0x00, 0x01, 0xFF] 3 w2 of
       None \<Rightarrow> False
     | Some (n, w3) \<Rightarrow>
         n = 3 \<and> map_option s_rx (fds w3 b) = Some [0x00, 0x01, 0xFF] \<and>
         (case dmx_read_frame_posix b (replicate 16 0) 16 w3 of
            None \<Rightarrow> False
          | Some ((m, w4), buffer) \<Rightarrow>
              m = - 1 \<and> errno w4 = EAGAIN \<and> buffer = replicate 16 0)))"
  by (simp add: dmx_open_posix_def dmx_write_posix_def dmx_read_frame_posix_def wired_posix_def
      boot_def tty_7E1_def posix_defs posix_consts NL_def to_size_t_def to_int_def Let_def)

text \<open>
  On the Win32 build \<^verbatim>\<open>dmx_open\<close> sets no time-outs. On ports that have
  none in force, the same three bytes are written and a read that asks for 16
  does not return.
\<close>

lemma loopback_read_waits_win32:
  "(let (a, w1) = dmx_open_win32 ''COM3'' wired_win32;
        (b, w2) = dmx_open_win32 ''COM4'' w1 in
    a = 500 \<and> b = 504 \<and>
    (case dmx_write_win32 a [0x00, 0x01, 0xFF] 3 w2 of
       None \<Rightarrow> False
     | Some (n, w3) \<Rightarrow>
         n = 3 \<and> dmx_read_frame_win32 b (replicate 16 0) 16 w3 = None))"
  by (simp add: dmx_open_win32_def dmx_write_win32_def dmx_read_frame_win32_def wired_win32_def
      winboot_def com_7E1_def win32_defs win32_consts fd_of_handle_def handle_of_fd_def
      to_DWORD_def to_int_def Let_def)

subsection \<open>Failure values\<close>

text \<open>
  C9. Each error path of \<^verbatim>\<open>dmx_open\<close>, \<^verbatim>\<open>dmx_write\<close> and
  \<^verbatim>\<open>dmx_read_frame\<close> returns exactly -1: on the POSIX build when
  \<^verbatim>\<open>open\<close> returns a negative value, when \<^verbatim>\<open>write\<close> returns -1 and
  when \<^verbatim>\<open>read\<close> returns a negative value; on the Win32 build when \<^verbatim>\<open>CreateFileA\<close> returns
  \<^verbatim>\<open>INVALID_HANDLE_VALUE\<close>, when the configuration of the opened port cannot
  be read or written, and when \<^verbatim>\<open>WriteFile\<close> or \<^verbatim>\<open>ReadFile\<close> returns
  false.
\<close>

theorem failure_returns_are_minus_one:
  "(fst (sys_open port (O_RDWR OR O_NOCTTY OR O_NONBLOCK) w) < 0 \<longrightarrow>
      fst (dmx_open_posix port w) = - 1)
   \<and> (\<forall>r w1. sys_write fd data (to_size_t len) w = Some (r, w1) \<and> r = - 1 \<longrightarrow>
         dmx_write_posix fd data len w = Some (- 1, w1))
   \<and> (\<forall>r w1 b. sys_read fd buffer (to_size_t len) w = Some ((r, w1), b) \<and> to_int r < 0 \<longrightarrow>
         dmx_read_frame_posix fd buffer len w = Some ((- 1, w1), b))
   \<and> (fst (CreateFileA port (GENERIC_READ OR GENERIC_WRITE) 0 OPEN_EXISTING 0 v) = INVALID_HANDLE_VALUE \<longrightarrow>
         fst (dmx_open_win32 port v) = - 1)
   \<and> (\<forall>d. ports v port = Some d \<and> (\<not> m_is_comm d \<or> m_rejects d) \<longrightarrow>
         fst (dmx_open_win32 port v) = - 1)
   \<and> (\<forall>v1 k. WriteFile (handle_of_fd fd) data (to_DWORD len) v = Some ((False, v1), k) \<longrightarrow>
         dmx_write_win32 fd data len v = Some (- 1, v1))
   \<and> (\<forall>v1 k b. ReadFile (handle_of_fd fd) buffer (to_DWORD len) v = Some ((False, v1), k, b) \<longrightarrow>
         dmx_read_frame_win32 fd buffer len v = Some ((- 1, v1), b))"
proof (intro conjI allI impI)
  assume "fst (sys_open port (O_RDWR OR O_NOCTTY OR O_NONBLOCK) w) < 0"
  then show "fst (dmx_open_posix port w) = - 1"
    by (cases "sys_open port (O_RDWR OR O_NOCTTY OR O_NONBLOCK) w") (simp add: dmx_open_posix_def)
next
  fix r w1 assume "sys_write fd data (to_size_t len) w = Some (r, w1) \<and> r = - 1"
  then show "dmx_write_posix fd data len w = Some (- 1, w1)"
    by (simp add: dmx_write_posix_def to_int_def)
next
  fix r w1 b assume "sys_read fd buffer (to_size_t len) w = Some ((r, w1), b) \<and> to_int r < 0"
  then show "dmx_read_frame_posix fd buffer len w = Some ((- 1, w1), b)"
    by (simp add: dmx_read_frame_posix_def)
next
  assume "fst (CreateFileA port (GENERIC_READ OR GENERIC_WRITE) 0 OPEN_EXISTING 0 v) = INVALID_HANDLE_VALUE"
  then show "fst (dmx_open_win32 port v) = - 1"
    by (cases "CreateFileA port (GENERIC_READ OR GENERIC_WRITE) 0 OPEN_EXISTING 0 v")
      (simp add: dmx_open_win32_def)
next
  fix d assume "ports v port = Some d \<and> (\<not> m_is_comm d \<or> m_rejects d)"
  then show "fst (dmx_open_win32 port v) = - 1"
    using dmx_open_win32_config_failure(1) by blast
next
  fix v1 k assume "WriteFile (handle_of_fd fd) data (to_DWORD len) v = Some ((False, v1), k)"
  then show "dmx_write_win32 fd data len v = Some (- 1, v1)"
    by (simp add: dmx_write_win32_def)
next
  fix v1 k b assume "ReadFile (handle_of_fd fd) buffer (to_DWORD len) v = Some ((False, v1), k, b)"
  then show "dmx_read_frame_win32 fd buffer len v = Some ((- 1, v1), b)"
    by (simp add: dmx_read_frame_win32_def)
qed

text \<open>
  A node and a port that do not exist, a device that is not a communications
  device, and a descriptor and a handle that are not open.
\<close>

theorem failure_returns_are_minus_one_witness:
  "fst (dmx_open_posix ''/dev/ttyS9'' boot) = - 1
   \<and> map_option fst (dmx_write_posix 7 [0x00] 1 boot) = Some (- 1)
   \<and> map_option (fst \<circ> fst) (dmx_read_frame_posix 7 [0x00] 1 boot) = Some (- 1)
   \<and> fst (dmx_open_win32 ''COM9'' winboot) = - 1
   \<and> fst (dmx_open_win32 ''NUL'' winboot) = - 1
   \<and> map_option fst (dmx_write_win32 7 [0x00] 1 winboot) = Some (- 1)
   \<and> map_option (fst \<circ> fst) (dmx_read_frame_win32 7 [0x00] 1 winboot) = Some (- 1)"
proof -
  note t = failure_returns_are_minus_one [where w = boot and v = winboot and fd = 7
      and data = "[0x00]" and buffer = "[0x00]" and len = 1]
  have 1: "fst (dmx_open_posix ''/dev/ttyS9'' boot) = - 1"
    by (rule t [of "''/dev/ttyS9''", THEN conjunct1, rule_format])
      (simp add: boot_def posix_defs)
  have 2: "dmx_write_posix 7 [0x00] 1 boot =
      Some (- 1, boot\<lparr>errno := EBADF, syslog := [(Call_write 7 [0x00] 1, - 1)]\<rparr>)"
    by (rule t [of "''/dev/ttyS9''", THEN conjunct2, THEN conjunct1, rule_format])
      (simp add: boot_def posix_defs to_size_t_def)
  have 3: "dmx_read_frame_posix 7 [0x00] 1 boot =
      Some ((- 1, boot\<lparr>errno := EBADF, syslog := [(Call_read 7 1, - 1)]\<rparr>), [0x00])"
    by (rule t [of "''/dev/ttyS9''", THEN conjunct2, THEN conjunct2, THEN conjunct1, rule_format,
          of "- 1"])
      (simp add: boot_def posix_defs to_size_t_def to_int_def)
  have 4: "fst (dmx_open_win32 ''COM9'' winboot) = - 1"
    by (rule t [of "''COM9''", THEN conjunct2, THEN conjunct2, THEN conjunct2, THEN conjunct1, rule_format])
      (simp add: winboot_def win32_defs Let_def)
  have 5: "fst (dmx_open_win32 ''NUL'' winboot) = - 1"
    by (rule t [of "''NUL''", THEN conjunct2, THEN conjunct2, THEN conjunct2, THEN conjunct2,
          THEN conjunct1, rule_format, of "com_7E1\<lparr>m_is_comm := False\<rparr>"])
      (simp add: winboot_def)
  have 6: "dmx_write_win32 7 [0x00] 1 winboot =
      Some (- 1, winboot\<lparr>winlog := [(Call_WriteFile 7 [0x00] 1, Ret_BOOL False)]\<rparr>)"
    by (rule t [of "''COM9''", THEN conjunct2, THEN conjunct2, THEN conjunct2, THEN conjunct2,
          THEN conjunct2, THEN conjunct1, rule_format, of _ 0])
      (simp add: winboot_def win32_defs to_DWORD_def handle_of_fd_def Let_def)
  have 7: "dmx_read_frame_win32 7 [0x00] 1 winboot =
      Some ((- 1, winboot\<lparr>winlog := [(Call_ReadFile 7 1, Ret_BOOL False)]\<rparr>), [0x00])"
    by (rule t [of "''COM9''", THEN conjunct2, THEN conjunct2, THEN conjunct2, THEN conjunct2,
          THEN conjunct2, THEN conjunct2, rule_format, of _ 0])
      (simp add: winboot_def win32_defs to_DWORD_def handle_of_fd_def Let_def)
  show ?thesis by (simp add: 1 2 3 4 5 6 7)
qed

subsection \<open>close and send-break\<close>

text \<open>
  C10. \<^verbatim>\<open>dmx_close\<close> and \<^verbatim>\<open>dmx_send_break\<close> return no value and do not
  use the values their primitives return: \<^verbatim>\<open>dmx_close\<close> is one call of
  \<^verbatim>\<open>close\<close> or \<^verbatim>\<open>CloseHandle\<close>, and \<^verbatim>\<open>dmx_send_break\<close> makes all its
  calls in order (\<^verbatim>\<open>tcsendbreak\<close> and \<^verbatim>\<open>usleep\<close>; \<^verbatim>\<open>SetCommBreak\<close>,
  \<^verbatim>\<open>Sleep\<close> and \<^verbatim>\<open>ClearCommBreak\<close>), the later ones also after an
  earlier one has failed, as each does on a handle that is not open. The
  failure is not hidden from the caller, though: on the POSIX build
  \<^verbatim>\<open>errno\<close> is left as the primitives set it, \<^verbatim>\<open>EBADF\<close> for a descriptor
  that is not open.
\<close>

theorem close_and_send_break_ignore_results:
  "syslog (dmx_close_posix fd w) = syslog w @ [(Call_close fd, fst (sys_close fd w))]
   \<and> syslog (dmx_send_break_posix fd w) =
        syslog w @ [(Call_tcsendbreak fd 0, fst (sys_tcsendbreak fd 0 w)), (Call_usleep 12, 0)]
   \<and> errno (dmx_close_posix fd w) = errno (snd (sys_close fd w))
   \<and> errno (dmx_send_break_posix fd w) = errno (snd (sys_tcsendbreak fd 0 w))
   \<and> (fds w fd = None \<longrightarrow>
        fst (sys_close fd w) = - 1 \<and> fst (sys_tcsendbreak fd 0 w) = - 1
        \<and> errno (dmx_close_posix fd w) = EBADF \<and> errno (dmx_send_break_posix fd w) = EBADF)
   \<and> winlog (dmx_close_win32 fd v) =
        winlog v @ [(Call_CloseHandle (handle_of_fd fd), Ret_BOOL (fst (CloseHandle (handle_of_fd fd) v)))]
   \<and> (\<exists>b. winlog (dmx_send_break_win32 fd v) =
        winlog v @ [(Call_SetCommBreak (handle_of_fd fd), Ret_BOOL (fst (SetCommBreak (handle_of_fd fd) v))),
                    (Call_Sleep 1, Ret_void),
                    (Call_ClearCommBreak (handle_of_fd fd), Ret_BOOL b)])
   \<and> (handles v (handle_of_fd fd) = None \<longrightarrow>
        \<not> fst (CloseHandle (handle_of_fd fd) v) \<and> \<not> fst (SetCommBreak (handle_of_fd fd) v))"
  by (auto simp: dmx_close_posix_def dmx_send_break_posix_def dmx_close_win32_def
      dmx_send_break_win32_def posix_defs win32_defs Let_def split: option.splits prod.splits)

text \<open>
  On descriptor 7, which is not open, every primitive fails, both operations
  make all their calls, and \<^verbatim>\<open>errno\<close> is \<^verbatim>\<open>EBADF\<close> afterwards.
\<close>

theorem close_and_send_break_ignore_results_witness:
  "syslog (dmx_close_posix 7 boot) = [(Call_close 7, - 1)]
   \<and> syslog (dmx_send_break_posix 7 boot) = [(Call_tcsendbreak 7 0, - 1), (Call_usleep 12, 0)]
   \<and> errno (dmx_close_posix 7 boot) = EBADF
   \<and> errno (dmx_send_break_posix 7 boot) = EBADF
   \<and> winlog (dmx_close_win32 7 winboot) = [(Call_CloseHandle 7, Ret_BOOL False)]
   \<and> (\<exists>b. winlog (dmx_send_break_win32 7 winboot) =
         [(Call_SetCommBreak 7, Ret_BOOL False), (Call_Sleep 1, Ret_void), (Call_ClearCommBreak 7, Ret_BOOL b)])"
proof -
  note t = close_and_send_break_ignore_results [of 7 boot winboot]
  have p: "fds boot 7 = None" by (simp add: boot_def)
  have q: "handles winboot (handle_of_fd 7) = None" by (simp add: winboot_def)
  have l: "syslog boot = []" "winlog winboot = []" "handle_of_fd 7 = 7"
    by (simp_all add: boot_def winboot_def handle_of_fd_def)
  from t p q show ?thesis unfolding l by auto
qed

text \<open>
  A failure of \<^verbatim>\<open>close\<close> can be observed by the caller of \<^verbatim>\<open>dmx_close\<close>:
  \<^verbatim>\<open>errno\<close>, which was \<^verbatim>\<open>EINVAL\<close> before the call on a descriptor that is
  not open, is \<^verbatim>\<open>EBADF\<close> after it, and is unchanged by a call on a
  descriptor that is open.
\<close>

theorem close_failure_seen_in_errno:
  "errno boot = EINVAL \<and> fst (sys_close 7 boot) = - 1
   \<and> errno (dmx_close_posix 7 boot) = EBADF
   \<and> errno tight_posix = EINVAL \<and> fst (sys_close 3 tight_posix) = 0
   \<and> errno (dmx_close_posix 3 tight_posix) = EINVAL"
  by (simp add: dmx_close_posix_def tight_posix_def boot_def posix_defs)

end
